theory Spec2Isabelle
  imports Complex_Main
begin

section \<open>Python strings\<close>

text \<open>
  A Python \<open>str\<close> is a sequence of Unicode code points, so it is modelled as a list of
  natural numbers. \<open>ustr\<close> turns an ASCII literal into such a list; code points that
  are awkward inside a literal (newline 10, double quote 34, Arabic letters) are written
  as numbers. A Python \<open>float\<close> is modelled as a real number: arithmetic is exact, and
  the non-finite floats are outside the model.
\<close>

type_synonym pstr = "nat list"

definition ustr :: "string \<Rightarrow> pstr" where
  "ustr cs = map of_char cs"

text \<open>\<open>str.isspace\<close> on one code point: the code points Python treats as whitespace.\<close>

definition isspace :: "nat \<Rightarrow> bool" where
  "isspace c \<longleftrightarrow>
     (9 \<le> c \<and> c \<le> 13) \<or> (28 \<le> c \<and> c \<le> 32) \<or> c = 133 \<or> c = 160 \<or> c = 5760 \<or>
     (8192 \<le> c \<and> c \<le> 8202) \<or> c = 8232 \<or> c = 8233 \<or> c = 8239 \<or> c = 8287 \<or> c = 12288"

text \<open>\<open>s.strip()\<close>: whitespace removed at both ends.\<close>

definition strip :: "pstr \<Rightarrow> pstr" where
  "strip s = rev (dropWhile isspace (rev (dropWhile isspace s)))"

text \<open>\<open>s.split('\n')\<close>: never empty, \<open>''.split('\n') = ['']\<close>.\<close>

fun split_nl :: "pstr \<Rightarrow> pstr list" where
  "split_nl [] = [[]]"
| "split_nl (c # cs) =
     (if c = 10 then [] # split_nl cs
      else (case split_nl cs of [] \<Rightarrow> [[c]] | l # ls \<Rightarrow> (c # l) # ls))"

text \<open>\<open>s.startswith(p)\<close>.\<close>

definition startswith :: "pstr \<Rightarrow> pstr \<Rightarrow> bool" where
  "startswith s p \<longleftrightarrow> take (length p) s = p"

text \<open>
  \<open>line.split(':', 1)[1]\<close>: what follows the first colon. The source evaluates it only on
  a line that starts with a marker ending in a colon, so the index 1 exists there
  (lemma \<open>marker_has_colon\<close> below).
\<close>

definition after_colon :: "pstr \<Rightarrow> pstr" where
  "after_colon l = tl (dropWhile (\<lambda>c. c \<noteq> 58) l)"

text \<open>\<open>sub in s\<close> for strings.\<close>

fun contains :: "pstr \<Rightarrow> pstr \<Rightarrow> bool" where
  "contains [] sub \<longleftrightarrow> sub = []"
| "contains (c # cs) sub \<longleftrightarrow> startswith (c # cs) sub \<or> contains cs sub"

text \<open>
  The builtin \<open>float(s)\<close> is a parameter \<open>pf\<close> of the parsers below: \<open>None\<close> when it
  raises. \<open>float_dec\<close> is Python's \<open>float\<close> on the plain unsigned decimals
  (digits, optionally a point and more digits) and is used for concrete inputs only.
\<close>

definition isdigit :: "nat \<Rightarrow> bool" where
  "isdigit c \<longleftrightarrow> 48 \<le> c \<and> c \<le> 57"

definition digits_value :: "pstr \<Rightarrow> nat" where
  "digits_value ds = foldl (\<lambda>n c. 10 * n + (c - 48)) 0 ds"

definition float_dec :: "pstr \<Rightarrow> real option" where
  "float_dec s =
     (let ip = takeWhile isdigit s; r = dropWhile isdigit s in
      case r of
        [] \<Rightarrow> if ip = [] then None else Some (real (digits_value ip))
      | c # fp \<Rightarrow>
          if c = 46 \<and> list_all isdigit fp \<and> (ip \<noteq> [] \<or> fp \<noteq> [])
          then Some (real (digits_value ip) + real (digits_value fp) / 10 ^ length fp)
          else None)"

section \<open>emotion_detector.py\<close>

datatype error = Exception

definition EMOTION_MAPPING :: "(pstr \<times> pstr) list" where
  "EMOTION_MAPPING =
     [(ustr ''joy'', ustr ''Happy''),
      (ustr ''neutral'', ustr ''Neutral''),
      (ustr ''surprise'', ustr ''Confused''),
      (ustr ''anger'', ustr ''Frustrated''),
      (ustr ''sadness'', ustr ''Sad''),
      (ustr ''fear'', ustr ''Confused''),
      (ustr ''disgust'', ustr ''Frustrated'')]"

definition TARGET_EMOTIONS :: "pstr list" where
  "TARGET_EMOTIONS =
     [ustr ''Happy'', ustr ''Neutral'', ustr ''Confused'', ustr ''Frustrated'', ustr ''Sad'']"

text \<open>
  The result dictionary \<open>{'label': .., 'confidence': .., 'scores': ..}\<close>. The scores
  dictionary keeps its insertion order, which \<open>max\<close> iterates, so it is an association
  list.
\<close>

record emotion_result =
  label :: pstr
  confidence :: real
  scores :: "(pstr \<times> real) list"

text \<open>
  The detector object. \<open>emotion_pipeline\<close> and \<open>gemini_model\<close> are \<open>None\<close> when they
  were not loaded. The pipeline maps a text to its list of (native label, score)
  predictions, the remote model maps a prompt to the text of its reply; either call may
  raise.
\<close>

record detector =
  confidence_threshold :: real
  use_gemini_fallback :: bool
  emotion_pipeline :: "(pstr \<Rightarrow> error + (pstr \<times> real) list) option"
  gemini_model :: "(pstr \<Rightarrow> error + pstr) option"

text \<open>\<open>EMOTION_MAPPING.get(original_label, 'Neutral')\<close>.\<close>

definition target_emotion :: "pstr \<Rightarrow> pstr" where
  "target_emotion original_label =
     (case map_of EMOTION_MAPPING original_label of
        Some t \<Rightarrow> t
      | None \<Rightarrow> ustr ''Neutral'')"

text \<open>\<open>emotion_scores[k] += s\<close> for a key of the dictionary.\<close>

definition add_score :: "(pstr \<times> real) list \<Rightarrow> pstr \<Rightarrow> real \<Rightarrow> (pstr \<times> real) list" where
  "add_score d k s = map (\<lambda>(e, v). if e = k then (e, v + s) else (e, v)) d"

text \<open>The loop over the predictions, from the all-zero dictionary.\<close>

definition accumulate :: "(pstr \<times> real) list \<Rightarrow> (pstr \<times> real) list" where
  "accumulate predictions =
     foldl (\<lambda>d (original_label, score). add_score d (target_emotion original_label) score)
       (map (\<lambda>emotion. (emotion, 0)) TARGET_EMOTIONS) predictions"

definition normalize_scores :: "(pstr \<times> real) list \<Rightarrow> (pstr \<times> real) list" where
  "normalize_scores emotion_scores =
     (let total = sum_list (map snd emotion_scores) in
      if total > 0 then map (\<lambda>(k, v). (k, v / total)) emotion_scores else emotion_scores)"

text \<open>
  \<open>max(items, key=lambda x: x[1])\<close>: the first item whose value no later item exceeds
  strictly; \<open>ValueError\<close> on no items.
\<close>

fun max_from :: "(pstr \<times> real) \<Rightarrow> (pstr \<times> real) list \<Rightarrow> (pstr \<times> real)" where
  "max_from best [] = best"
| "max_from best (x # xs) = max_from (if snd best < snd x then x else best) xs"

definition max_item :: "(pstr \<times> real) list \<Rightarrow> error + (pstr \<times> real)" where
  "max_item items = (case items of [] \<Rightarrow> Inl Exception | x # xs \<Rightarrow> Inr (max_from x xs))"

definition detect_with_hf_model :: "detector \<Rightarrow> pstr \<Rightarrow> error + emotion_result" where
  "detect_with_hf_model d text =
     (case emotion_pipeline d of
        None \<Rightarrow> Inl Exception
      | Some pipeline \<Rightarrow>
          (case pipeline text of
             Inl e \<Rightarrow> Inl e
           | Inr predictions \<Rightarrow>
               (let emotion_scores = normalize_scores (accumulate predictions) in
                case max_item emotion_scores of
                  Inl e \<Rightarrow> Inl e
                | Inr dominant_emotion \<Rightarrow>
                    Inr \<lparr>label = fst dominant_emotion,
                         confidence = snd dominant_emotion,
                         scores = emotion_scores\<rparr>)))"

definition gemini_prompt :: "pstr \<Rightarrow> pstr" where
  "gemini_prompt text =
     ustr ''Analyze the emotion in this message and classify it into exactly ONE of these 5 categories:'' @
     [10] @
     ustr ''- Happy (positive, joyful, satisfied, grateful)'' @
     [10] @
     ustr ''- Neutral (calm, informational, matter-of-fact)'' @
     [10] @
     ustr ''- Confused (uncertain, puzzled, seeking clarification)'' @
     [10] @
     ustr ''- Frustrated (angry, annoyed, impatient, irritated)'' @
     [10] @
     ustr ''- Sad (disappointed, upset, discouraged, unhappy)'' @
     [10, 10] @
     ustr ''Message: '' @
     [34] @ text @ [34, 10, 10] @
     ustr ''Respond with ONLY the emotion label and a confidence score (0.0-1.0) in this exact format:'' @
     [10] @
     ustr ''EMOTION: [label]'' @
     [10] @
     ustr ''CONFIDENCE: [score]'' @
     [10, 10] @
     ustr ''Example:'' @
     [10] @
     ustr ''EMOTION: Frustrated'' @
     [10] @
     ustr ''CONFIDENCE: 0.85''"

text \<open>
  One round of the loop over the lines of the remote reply; the state is
  \<open>(emotion_label, confidence)\<close>. The bare \<open>except\<close> turns any failure of \<open>float\<close>
  into 0.5.
\<close>

definition gemini_line :: "(pstr \<Rightarrow> real option) \<Rightarrow> pstr \<times> real \<Rightarrow> pstr \<Rightarrow> pstr \<times> real" where
  "gemini_line pf st line =
     (if startswith line (ustr ''EMOTION:'') then (strip (after_colon line), snd st)
      else if startswith line (ustr ''CONFIDENCE:'') then
        (fst st, (case pf (strip (after_colon line)) of Some x \<Rightarrow> x | None \<Rightarrow> 1 / 2))
      else st)"

text \<open>
  \<open>scores = {e: (1 - confidence) / 4 for e in TARGET_EMOTIONS}; scores[emotion_label] = confidence\<close>
\<close>

definition gemini_scores :: "pstr \<Rightarrow> real \<Rightarrow> (pstr \<times> real) list" where
  "gemini_scores emotion_label c =
     map (\<lambda>e. (e, if e = emotion_label then c else (1 - c) / 4)) TARGET_EMOTIONS"

text \<open>
  \<open>_detect_with_gemini\<close>: \<open>None\<close> when no remote model is configured or when the
  remote call raises (the \<open>except\<close> returns \<open>None\<close>).
\<close>

definition detect_with_gemini :: "(pstr \<Rightarrow> real option) \<Rightarrow> detector \<Rightarrow> pstr \<Rightarrow> emotion_result option" where
  "detect_with_gemini pf d text =
     (case gemini_model d of
        None \<Rightarrow> None
      | Some generate_content \<Rightarrow>
          (case generate_content (gemini_prompt text) of
             Inl e \<Rightarrow> None
           | Inr response_text \<Rightarrow>
               (let result_text = strip response_text;
                    st = foldl (gemini_line pf) (ustr ''Neutral'', 1 / 2) (split_nl result_text);
                    emotion_label =
                      (if fst st \<in> set TARGET_EMOTIONS then fst st else ustr ''Neutral'');
                    c = snd st
                in Some \<lparr>label = emotion_label, confidence = c,
                         scores = gemini_scores emotion_label c\<rparr>)))"

definition default_emotion :: emotion_result where
  "default_emotion =
     \<lparr>label = ustr ''Neutral'', confidence = 1,
      scores = [(ustr ''Happy'', 0), (ustr ''Neutral'', 1), (ustr ''Confused'', 0),
                (ustr ''Frustrated'', 0), (ustr ''Sad'', 0)]\<rparr>"

text \<open>
  \<open>detect_emotion\<close>. The result is \<open>None\<close> where the Python returns \<open>None\<close>. The second
  \<open>try\<close> returns whatever \<open>_detect_with_gemini\<close> returns, which never raises.
\<close>

definition detect_emotion :: "(pstr \<Rightarrow> real option) \<Rightarrow> detector \<Rightarrow> pstr \<Rightarrow> emotion_result option" where
  "detect_emotion pf d user_message =
     (if user_message = [] \<or> strip user_message = [] then Some default_emotion
      else
        (let after_hf =
               (if use_gemini_fallback d \<and> gemini_model d \<noteq> None
                then detect_with_gemini pf d user_message
                else Some default_emotion)
         in case emotion_pipeline d of
              None \<Rightarrow> after_hf
            | Some pipeline \<Rightarrow>
                (case detect_with_hf_model d user_message of
                   Inl e \<Rightarrow> after_hf
                 | Inr result \<Rightarrow>
                     if confidence result < confidence_threshold d \<and> use_gemini_fallback d
                     then (case detect_with_gemini pf d user_message of
                             Some gemini_result \<Rightarrow> Some gemini_result
                           | None \<Rightarrow> Some result)
                     else Some result)))"

section \<open>emotion_response_adapter.py\<close>

text \<open>
  The conversation context is a dictionary with string keys; only its emptiness and its
  \<open>session_id\<close> entry are read. The adapter object holds the remote model (\<open>None\<close> when
  absent; the call maps a prompt to the text of the reply and may raise) and the
  frustration tracker, a dictionary from session ids to counts. The builtin
  \<open>str.lower\<close> is the parameter \<open>lw\<close> of the functions that use it.
\<close>

type_synonym context_dict = "(pstr \<times> pstr) list"

record adapter =
  adapter_gemini_model :: "(pstr \<Rightarrow> error + pstr) option"
  frustration_tracker :: "pstr \<rightharpoonup> int"

definition prompt_Happy :: pstr where
  "prompt_Happy =
     ustr ''You are Sadeem, a friendly Fuel Card assistant. The user is in a HAPPY/POSITIVE mood.'' @
     [10, 10] @
     ustr ''Guidelines:'' @
     [10] @
     ustr ''- Match their positive energy with an upbeat, friendly tone'' @
     [10] @
     ustr ''- Keep responses concise and efficient (they're satisfied, don't over-explain)'' @
     [10] @
     ustr ''- Use positive language and affirmations'' @
     [10] @
     ustr ''- Be warm but professional'' @
     [10] @
     ustr ''- 2-3 sentences maximum''"

definition prompt_Neutral :: pstr where
  "prompt_Neutral =
     ustr ''You are Sadeem, a professional Fuel Card assistant. The user is in a NEUTRAL/CALM mood.'' @
     [10, 10] @
     ustr ''Guidelines:'' @
     [10] @
     ustr ''- Use clear, professional, factual tone'' @
     [10] @
     ustr ''- Be direct and informative'' @
     [10] @
     ustr ''- Focus on accuracy and completeness'' @
     [10] @
     ustr ''- Avoid unnecessary emotion or flair'' @
     [10] @
     ustr ''- 2-4 sentences, well-structured''"

definition prompt_Confused :: pstr where
  "prompt_Confused =
     ustr ''You are Sadeem, a patient and helpful Fuel Card assistant. The user is CONFUSED/UNCERTAIN.'' @
     [10, 10] @
     ustr ''Guidelines:'' @
     [10] @
     ustr ''- Break down information into simple, clear steps'' @
     [10] @
     ustr ''- Use numbered lists or bullet points when helpful'' @
     [10] @
     ustr ''- Provide concrete examples'' @
     [10] @
     ustr ''- Ask a clarifying question at the end to ensure understanding'' @
     [10] @
     ustr ''- Be patient and reassuring'' @
     [10] @
     ustr ''- Avoid jargon, explain technical terms'' @
     [10] @
     ustr ''- 3-5 sentences with clear structure''"

definition prompt_Frustrated :: pstr where
  "prompt_Frustrated =
     ustr ''You are Sadeem, an empathetic and solution-focused Fuel Card assistant. The user is FRUSTRATED/ANGRY.'' @
     [10, 10] @
     ustr ''Guidelines:'' @
     [10] @
     ustr ''- START with acknowledgment of their frustration (e.g., '' @
     [34] @
     ustr ''I understand this is frustrating...'' @
     [34] @
     ustr '')'' @
     [10] @
     ustr ''- Be direct and solution-oriented - get to the point quickly'' @
     [10] @
     ustr ''- Offer specific, actionable steps'' @
     [10] @
     ustr ''- Show empathy but don't over-apologize'' @
     [10] @
     ustr ''- If this seems like a recurring issue, suggest escalation or alternative solutions'' @
     [10] @
     ustr ''- 2-4 sentences, focused on resolution''"

definition prompt_Sad :: pstr where
  "prompt_Sad =
     ustr ''You are Sadeem, a supportive and encouraging Fuel Card assistant. The user is SAD/DISAPPOINTED.'' @
     [10, 10] @
     ustr ''Guidelines:'' @
     [10] @
     ustr ''- Use a gentle, supportive tone'' @
     [10] @
     ustr ''- Acknowledge their feelings briefly'' @
     [10] @
     ustr ''- Provide reassurance while still being helpful'' @
     [10] @
     ustr ''- Be encouraging and positive about finding a solution'' @
     [10] @
     ustr ''- Avoid being overly cheerful (be genuine)'' @
     [10] @
     ustr ''- 3-4 sentences, warm and understanding''"

definition escalation_directive :: pstr where
  "escalation_directive =
     [10, 10] @
     ustr ''IMPORTANT: This user has been frustrated multiple times. Offer to escalate to a human representative or provide alternative contact methods.''"

text \<open>
  The dictionary \<open>prompts\<close>; its \<open>Frustrated\<close> entry is the one the escalation
  directive may have been appended to.
\<close>

definition prompts :: "pstr \<Rightarrow> (pstr \<times> pstr) list" where
  "prompts frustrated =
     [(ustr ''Happy'', prompt_Happy),
      (ustr ''Neutral'', prompt_Neutral),
      (ustr ''Confused'', prompt_Confused),
      (ustr ''Frustrated'', frustrated),
      (ustr ''Sad'', prompt_Sad)]"

text \<open>
  The session id that both \<open>_get_emotion_prompt\<close> and \<open>_add_emotion_enhancements\<close> act
  on: present when \<open>context\<close> is truthy (not \<open>None\<close>, not empty) and
  \<open>context.get('session_id')\<close> is truthy (present, not the empty string).
\<close>

definition session_id_of :: "context_dict option \<Rightarrow> pstr option" where
  "session_id_of context =
     (case context of
        None \<Rightarrow> None
      | Some c \<Rightarrow>
          if c = [] then None
          else (case map_of c (ustr ''session_id'') of
                  None \<Rightarrow> None
                | Some session_id \<Rightarrow> if session_id = [] then None else Some session_id))"

text \<open>\<open>get_frustration_level\<close>: \<open>frustration_tracker.get(session_id, 0)\<close>.\<close>

definition get_frustration_level :: "adapter \<Rightarrow> pstr \<Rightarrow> int" where
  "get_frustration_level a session_id =
     (case frustration_tracker a session_id of None \<Rightarrow> 0 | Some n \<Rightarrow> n)"

definition reset_frustration_tracker :: "adapter \<Rightarrow> pstr \<Rightarrow> adapter" where
  "reset_frustration_tracker a session_id =
     a\<lparr>frustration_tracker := (frustration_tracker a)(session_id := None)\<rparr>"

text \<open>\<open>_get_emotion_prompt\<close> returns the prompt and the adapter with its updated tracker.\<close>

definition get_emotion_prompt :: "adapter \<Rightarrow> pstr \<Rightarrow> context_dict option \<Rightarrow> pstr \<times> adapter" where
  "get_emotion_prompt a emotion context =
     (let (frustrated, a') =
            (case (if emotion = ustr ''Frustrated'' then session_id_of context else None) of
               None \<Rightarrow> (prompt_Frustrated, a)
             | Some session_id \<Rightarrow>
                 (let frustration_count = get_frustration_level a session_id + 1;
                      a' = a\<lparr>frustration_tracker :=
                                (frustration_tracker a)(session_id \<mapsto> frustration_count)\<rparr>
                  in (if frustration_count \<ge> 2 then prompt_Frustrated @ escalation_directive
                      else prompt_Frustrated, a')))
      in ((case map_of (prompts frustrated) emotion of
             Some p \<Rightarrow> p
           | None \<Rightarrow> prompt_Neutral), a'))"

definition clarifying_questions :: "pstr list" where
  "clarifying_questions =
     [[10, 10] @
      ustr ''Does this help clarify things, or would you like me to explain any specific part in more detail?'',
      [10, 10] @
      ustr ''Is there a specific aspect you'd like me to break down further?'',
      [10, 10] @
      ustr ''Do you have any questions about these steps?'']"

definition escalation_offer :: pstr where
  "escalation_offer =
     [10, 10] @
     ustr ''If you'd prefer, I can provide contact information for our customer service team who can assist you directly.''"

definition encouragement :: pstr where
  "encouragement = ustr '' I'm here to help make this easier for you.''"

text \<open>\<open>answer.split()\<close>: the maximal runs of non-whitespace; the second argument is the word being read.\<close>

fun split_ws :: "pstr \<Rightarrow> pstr \<Rightarrow> pstr list" where
  "split_ws [] w = (if w = [] then [] else [w])"
| "split_ws (c # cs) w =
     (if isspace c then (if w = [] then split_ws cs [] else w # split_ws cs [])
      else split_ws cs (w @ [c]))"

definition add_emotion_enhancements ::
    "(pstr \<Rightarrow> pstr) \<Rightarrow> adapter \<Rightarrow> pstr \<Rightarrow> pstr \<Rightarrow> pstr \<Rightarrow> context_dict option \<Rightarrow> pstr" where
  "add_emotion_enhancements lw a answer emotion user_message context =
     (let answer1 =
            (if emotion = ustr ''Confused'' \<and> 63 \<notin> set answer
             then answer @ clarifying_questions ! (length user_message mod length clarifying_questions)
             else answer);
          answer2 =
            (case (if emotion = ustr ''Frustrated'' then session_id_of context else None) of
               None \<Rightarrow> answer1
             | Some session_id \<Rightarrow>
                 if get_frustration_level a session_id \<ge> 2 \<and>
                    \<not> contains (lw answer1) (ustr ''contact'') \<and>
                    \<not> contains (lw answer1) (ustr ''representative'')
                 then answer1 @ escalation_offer
                 else answer1);
          answer3 =
            (if emotion = ustr ''Sad'' \<and> length (split_ws answer2 []) > 20 \<and>
                \<not> list_ex (\<lambda>word. contains (lw answer2) word)
                     [ustr ''help'', ustr ''here'', ustr ''support'']
             then answer2 @ encouragement
             else answer2)
      in answer3)"

definition simple_emotion_prefix :: "pstr \<Rightarrow> pstr" where
  "simple_emotion_prefix emotion =
     (case map_of
        [(ustr ''Happy'', ustr ''Great to hear from you! ''),
         (ustr ''Neutral'', []),
         (ustr ''Confused'', ustr ''Let me help clarify that. ''),
         (ustr ''Frustrated'', ustr ''I understand this is frustrating. ''),
         (ustr ''Sad'', ustr ''I'm sorry you're experiencing this. '')] emotion of
        Some p \<Rightarrow> p
      | None \<Rightarrow> [])"

definition full_prompt :: "pstr \<Rightarrow> pstr \<Rightarrow> pstr \<Rightarrow> pstr \<Rightarrow> pstr" where
  "full_prompt system_prompt user_message emotion_label base_answer =
     system_prompt @
     [10, 10] @
     ustr ''User's Message: '' @ [34] @ user_message @ [34, 10] @
     ustr ''Detected Emotion: '' @ emotion_label @
     [10, 10] @
     ustr ''Base Answer (from knowledge base):'' @
     [10] @ base_answer @
     [10, 10] @
     ustr ''Your Task:'' @
     [10] @
     ustr ''Rewrite the base answer to match the user's emotional state. Keep the factual information but adjust the tone, structure, and approach based on the emotion guidelines above.'' @
     [10, 10] @
     ustr ''Adjusted Response:''"

text \<open>
  \<open>adjust_response_based_on_emotion\<close> returns the answer and the adapter after the call.
  Inside the \<open>try\<close> only the remote call can raise, after \<open>_get_emotion_prompt\<close> has
  updated the tracker.
\<close>

definition adjust_response_based_on_emotion ::
    "(pstr \<Rightarrow> pstr) \<Rightarrow> adapter \<Rightarrow> pstr \<Rightarrow> pstr \<Rightarrow> pstr \<Rightarrow> context_dict option \<Rightarrow> pstr \<times> adapter" where
  "adjust_response_based_on_emotion lw a emotion_label base_answer user_message conversation_context =
     (case adapter_gemini_model a of
        None \<Rightarrow> (base_answer, a)
      | Some generate_content \<Rightarrow>
          (let (system_prompt, a') = get_emotion_prompt a emotion_label conversation_context in
           case generate_content (full_prompt system_prompt user_message emotion_label base_answer) of
             Inl e \<Rightarrow> (simple_emotion_prefix emotion_label @ base_answer, a')
           | Inr response_text \<Rightarrow>
               (add_emotion_enhancements lw a' (strip response_text) emotion_label
                  user_message conversation_context, a')))"

section \<open>app.py: parsing the combined reply in \<open>ResponseGenerator.generate\<close>\<close>

text \<open>The dictionary \<open>emotion_map\<close> from the Arabic labels to the English ones.\<close>

definition emotion_map :: "(pstr \<times> pstr) list" where
  "emotion_map =
     [([1587, 1593, 1610, 1583], ustr ''Happy''),
      ([1605, 1581, 1575, 1610, 1583], ustr ''Neutral''),
      ([1605, 1585, 1578, 1576, 1603], ustr ''Confused''),
      ([1605, 1581, 1576, 1591], ustr ''Frustrated''),
      ([1581, 1586, 1610, 1606], ustr ''Sad'')]"

text \<open>
  One round of the loop over the lines of the reply; the state is
  \<open>(response_text, emotion_label, emotion_confidence)\<close>.
\<close>

definition parse_line ::
    "(pstr \<Rightarrow> real option) \<Rightarrow> pstr \<times> pstr \<times> real \<Rightarrow> pstr \<Rightarrow> pstr \<times> pstr \<times> real" where
  "parse_line pf st line =
     (case st of (response_text, emotion_label, emotion_confidence) \<Rightarrow>
        if startswith line (ustr ''EMOTION:'') then
          (let l = strip (after_colon line) in
           (response_text,
            (case map_of emotion_map l of Some m \<Rightarrow> m | None \<Rightarrow> l),
            emotion_confidence))
        else if startswith line (ustr ''CONFIDENCE:'') then
          (response_text, emotion_label,
           (case pf (strip (after_colon line)) of Some x \<Rightarrow> x | None \<Rightarrow> 1 / 2))
        else if startswith line (ustr ''RESPONSE:'') then
          (strip (after_colon line), emotion_label, emotion_confidence)
        else if response_text \<noteq> [] then
          (response_text @ [10] @ line, emotion_label, emotion_confidence)
        else st)"

definition rating_request :: "pstr \<Rightarrow> pstr" where
  "rating_request language =
     (if language = ustr ''ar'' then
        [10, 10, 1604, 1608] @ ustr '' '' @ [1593, 1606, 1583, 1603] @ ustr '' '' @
        [1583, 1602, 1610, 1602, 1577, 1548] @ ustr '' '' @ [1602, 1610, 1617, 1605] @
        ustr '' '' @ [1578, 1580, 1585, 1576, 1578, 1603] @ ustr '' '' @
        [1605, 1593, 1610] @ ustr ''! '' @ [11088]
      else
        [10, 10] @
        ustr ''If you have a moment, please rate your experience with me below! '' @ [11088])"

text \<open>
  The parsing part of \<open>generate\<close>, from the text of the remote reply to
  \<open>(response_text, emotion_label, emotion_confidence)\<close>. The loop starts from the
  defaults \<open>"Neutral"\<close> and \<open>0.0\<close> that \<open>generate\<close> sets before the remote call;
  \<open>should_request_rating\<close> and \<open>language\<close> come from the query.
\<close>

definition generate_parse ::
    "(pstr \<Rightarrow> real option) \<Rightarrow> bool \<Rightarrow> pstr \<Rightarrow> pstr \<Rightarrow> pstr \<times> pstr \<times> real" where
  "generate_parse pf should_request_rating language reply =
     (let result_text = strip reply in
      case foldl (parse_line pf) ([], ustr ''Neutral'', 0) (split_nl result_text) of
        (response_text, emotion_label, emotion_confidence) \<Rightarrow>
          (let response_text1 = (if response_text = [] then result_text else response_text);
               response_text2 =
                 (if should_request_rating then response_text1 @ rating_request language
                  else response_text1)
           in (strip response_text2, emotion_label, emotion_confidence)))"

section \<open>Stand-ins for the external calls and builtins on concrete inputs\<close>

text \<open>
  A remote model that answers every prompt with the same reply, one whose call raises,
  and a pipeline that returns the same predictions for every text: what a mock object
  does in the repository's tests. \<open>lower_ascii\<close> is \<open>str.lower\<close> on ASCII strings.
\<close>

definition reply_with :: "pstr \<Rightarrow> pstr \<Rightarrow> error + pstr" where
  "reply_with reply prompt = Inr reply"

definition call_raises :: "pstr \<Rightarrow> error + pstr" where
  "call_raises prompt = Inl Exception"

definition predict_with :: "(pstr \<times> real) list \<Rightarrow> pstr \<Rightarrow> error + (pstr \<times> real) list" where
  "predict_with predictions text = Inr predictions"

definition lower_ascii :: "pstr \<Rightarrow> pstr" where
  "lower_ascii s = map (\<lambda>c. if 65 \<le> c \<and> c \<le> 90 then c + 32 else c) s"

section \<open>What the specification says, for comparison with the code\<close>

text \<open>
  The lines of a reply that carry a field, and the fields the specification reads from
  them: the label and the confidence come from the last line with the marker, whatever
  stands between and around them.
\<close>

definition is_emotion_line :: "pstr \<Rightarrow> bool" where
  "is_emotion_line l \<longleftrightarrow> startswith l (ustr ''EMOTION:'')"

definition is_confidence_line :: "pstr \<Rightarrow> bool" where
  "is_confidence_line l \<longleftrightarrow> startswith l (ustr ''CONFIDENCE:'')"

definition is_response_line :: "pstr \<Rightarrow> bool" where
  "is_response_line l \<longleftrightarrow> startswith l (ustr ''RESPONSE:'')"

definition spec_reported_label :: "pstr \<Rightarrow> pstr list \<Rightarrow> pstr" where
  "spec_reported_label dflt ls =
     (case filter is_emotion_line ls of
        [] \<Rightarrow> dflt
      | e # es \<Rightarrow> strip (after_colon (last (e # es))))"

definition spec_reported_confidence :: "(pstr \<Rightarrow> real option) \<Rightarrow> real \<Rightarrow> pstr list \<Rightarrow> real" where
  "spec_reported_confidence pf dflt ls =
     (case filter is_confidence_line ls of
        [] \<Rightarrow> dflt
      | c # cs \<Rightarrow> (case pf (strip (after_colon (last (c # cs)))) of Some x \<Rightarrow> x | None \<Rightarrow> 1 / 2))"

text \<open>
  The secondary label map of the specification: an Arabic label becomes its English one,
  any other label is kept. A line is plain when it starts with none of the field markers
  \<open>EMOTION:\<close> and \<open>CONFIDENCE:\<close>.
\<close>

definition spec_mapped_label :: "pstr \<Rightarrow> pstr" where
  "spec_mapped_label l = (case map_of emotion_map l of Some m \<Rightarrow> m | None \<Rightarrow> l)"

definition is_plain_line :: "pstr \<Rightarrow> bool" where
  "is_plain_line l \<longleftrightarrow> \<not> is_emotion_line l \<and> \<not> is_confidence_line l"

text \<open>
  The score the specification accumulates on a target label: the sum of the scores of the
  predictions whose native label the table sends to it.
\<close>

definition spec_raw_score :: "(pstr \<times> real) list \<Rightarrow> pstr \<Rightarrow> real" where
  "spec_raw_score predictions e =
     sum_list (map snd (filter (\<lambda>p. target_emotion (fst p) = e) predictions))"

section \<open>Facts about the string operations\<close>

lemma all_dropWhile: "(\<forall>x\<in>set (dropWhile P s). P x) \<longleftrightarrow> (\<forall>x\<in>set s. P x)"
  by (induction s) auto

lemma strip_empty_iff: "strip s = [] \<longleftrightarrow> (\<forall>c\<in>set s. isspace c)"
  by (simp add: strip_def dropWhile_eq_Nil_conv all_dropWhile)

lemma dropWhile_last:
  "xs \<noteq> [] \<Longrightarrow> \<not> P (last xs) \<Longrightarrow> dropWhile P xs \<noteq> [] \<and> last (dropWhile P xs) = last xs"
  by (induction xs) auto

lemma strip_trimmed:
  assumes "strip s \<noteq> []"
  shows "\<not> isspace (hd (strip s)) \<and> \<not> isspace (last (strip s))"
proof -
  let ?u = "dropWhile isspace s"
  let ?v = "dropWhile isspace (rev ?u)"
  from assms have v: "?v \<noteq> []" by (simp add: strip_def)
  have u: "?u \<noteq> []"
  proof
    assume "?u = []"
    then have "?v = []" by (simp only: rev.simps(1) dropWhile.simps(1))
    with v show False by simp
  qed
  then have hu: "\<not> isspace (hd ?u)" by (rule hd_dropWhile)
  from u have "last (rev ?u) = hd ?u" by (simp add: last_rev)
  with u hu have "last ?v = hd ?u" using dropWhile_last [of "rev ?u" isspace] by simp
  moreover from v have "\<not> isspace (hd ?v)" by (rule hd_dropWhile)
  ultimately show ?thesis using v hu by (simp add: strip_def hd_rev last_rev)
qed

lemma strip_id:
  assumes "t \<noteq> []" "\<not> isspace (hd t)" "\<not> isspace (last t)"
  shows "strip t = t"
proof -
  from assms have 1: "dropWhile isspace t = t" by (cases t) auto
  from assms have "rev t \<noteq> []" "\<not> isspace (hd (rev t))" by (simp_all add: hd_rev)
  then have "dropWhile isspace (rev t) = rev t" by (cases "rev t") auto
  with 1 show ?thesis by (simp add: strip_def)
qed

lemma strip_strip: "strip (strip s) = strip s"
proof (cases "strip s = []")
  case True
  moreover have "strip [] = []" by (simp add: strip_def)
  ultimately show ?thesis by simp
next
  case False
  then show ?thesis using strip_trimmed [OF False] by (simp add: strip_id)
qed

lemma strip_append_nonempty: "xs \<noteq> [] \<Longrightarrow> \<not> isspace (hd xs) \<Longrightarrow> strip (xs @ ys) \<noteq> []"
  by (cases xs) (auto simp: strip_empty_iff)

text \<open>The index 1 of \<open>line.split(':', 1)\<close> exists on a line that starts with a marker.\<close>

lemma marker_has_colon:
  "startswith l m \<Longrightarrow> 58 \<in> set m \<Longrightarrow> dropWhile (\<lambda>c. c \<noteq> 58) l \<noteq> []"
  by (metis (mono_tags, lifting) dropWhile_eq_Nil_conv in_set_takeD startswith_def)

lemma contains_append_right: "contains ys sub \<Longrightarrow> contains (xs @ ys) sub"
  by (induction xs) auto

section \<open>The detector on blank input\<close>

text \<open>
  Claim C9. For every empty or whitespace-only message \<open>detect_emotion\<close> returns the
  default result, whatever the detector's models are or would answer: label Neutral,
  confidence 1.0, and the distribution with 1.0 on Neutral and 0.0 on the other four
  labels.
\<close>

theorem blank_input_default:
  assumes "\<forall>c\<in>set user_message. isspace c"
  shows "detect_emotion pf d user_message = Some default_emotion \<and>
         label default_emotion = ustr ''Neutral'' \<and>
         confidence default_emotion = 1 \<and>
         scores default_emotion =
           [(ustr ''Happy'', 0), (ustr ''Neutral'', 1), (ustr ''Confused'', 0),
            (ustr ''Frustrated'', 0), (ustr ''Sad'', 0)]"
proof -
  from assms have "strip user_message = []" by (simp add: strip_empty_iff)
  then show ?thesis by (simp add: detect_emotion_def default_emotion_def)
qed

theorem blank_input_default_witness:
  "detect_emotion float_dec
     \<lparr>confidence_threshold = 3 / 10, use_gemini_fallback = True,
      emotion_pipeline = Some (predict_with [(ustr ''joy'', 1)]),
      gemini_model = Some (reply_with (ustr ''EMOTION: Happy''))\<rparr> [32, 9, 10, 160]
   = Some default_emotion"
proof -
  have "\<forall>c\<in>set [32, 9, 10, 160]. isspace c" by (simp add: isspace_def)
  from blank_input_default [OF this] show ?thesis by blast
qed

section \<open>The detector when both models fail\<close>

text \<open>
  Claim C1. The claim is that \<open>detect_emotion\<close> always returns a result, the default
  Neutral one when neither model produced anything. With no local pipeline and a
  configured remote model whose call raises, the second \<open>try\<close> returns the \<open>None\<close> of
  \<open>_detect_with_gemini\<close> as it is, and the final \<open>return self._default_emotion()\<close> is
  not reached.
\<close>

theorem detect_emotion_returns_None:
  "detect_emotion float_dec
     \<lparr>confidence_threshold = 3 / 10, use_gemini_fallback = True,
      emotion_pipeline = None, gemini_model = Some call_raises\<rparr> (ustr ''hello'') = None"
  by (simp add: detect_emotion_def detect_with_gemini_def call_raises_def ustr_def strip_def
      isspace_def)

section \<open>The adapter without a remote model\<close>

text \<open>
  Claim C10. When the adapter has no remote model, \<open>adjust_response_based_on_emotion\<close>
  returns the base answer unchanged for every emotion, and the adapter, so the
  frustration tracker of every session, is unchanged.
\<close>

theorem no_model_base_answer:
  assumes "adapter_gemini_model a = None"
  shows "adjust_response_based_on_emotion lw a emotion_label base_answer user_message ctx =
         (base_answer, a)"
  using assms by (simp add: adjust_response_based_on_emotion_def)

theorem no_model_base_answer_witness:
  "adjust_response_based_on_emotion lower_ascii
     \<lparr>adapter_gemini_model = None, frustration_tracker = Map.empty\<rparr>
     (ustr ''Frustrated'') (ustr ''The fee is BD 3.300.'') (ustr ''Why is this so expensive?'')
     (Some [(ustr ''session_id'', ustr ''test-session'')])
   = (ustr ''The fee is BD 3.300.'',
      \<lparr>adapter_gemini_model = None, frustration_tracker = Map.empty\<rparr>)"
  using no_model_base_answer [of "\<lparr>adapter_gemini_model = None, frustration_tracker = Map.empty\<rparr>"]
  by simp

section \<open>The frustration counter\<close>

lemma get_emotion_prompt_tracker:
  "snd (get_emotion_prompt a emotion ctx) =
     (case (if emotion = ustr ''Frustrated'' then session_id_of ctx else None) of
        None \<Rightarrow> a
      | Some sid \<Rightarrow>
          a\<lparr>frustration_tracker :=
               (frustration_tracker a)(sid \<mapsto> get_frustration_level a sid + 1)\<rparr>)"
  by (simp add: get_emotion_prompt_def Let_def split: option.splits)

lemma adjust_adapter:
  "snd (adjust_response_based_on_emotion lw a emotion base msg ctx) =
     (case adapter_gemini_model a of
        None \<Rightarrow> a
      | Some g \<Rightarrow> snd (get_emotion_prompt a emotion ctx))"
  by (simp add: adjust_response_based_on_emotion_def Let_def
      split: option.splits prod.splits sum.splits)

text \<open>
  Claim C6, as stated: every Frustrated adaptation for a session raises the session's
  counter by 1. It fails for an adapter without a remote model: the call returns before
  \<open>_get_emotion_prompt\<close>, the only place that counts.
\<close>

theorem frustration_counter_no_model:
  "get_frustration_level
     (snd (adjust_response_based_on_emotion lower_ascii
        \<lparr>adapter_gemini_model = None, frustration_tracker = Map.empty\<rparr>
        (ustr ''Frustrated'') (ustr ''The fee is BD 3.300.'') (ustr ''Why is this so expensive?'')
        (Some [(ustr ''session_id'', ustr ''test-session'')])))
     (ustr ''test-session'')
   \<noteq> get_frustration_level \<lparr>adapter_gemini_model = None, frustration_tracker = Map.empty\<rparr>
       (ustr ''test-session'') + 1"
  by (simp add: adjust_response_based_on_emotion_def get_frustration_level_def)

text \<open>
  Claim C6, amended. With a remote model configured and a context that carries a
  non-empty session id, each Frustrated adaptation raises that session's counter by
  exactly 1, whether the remote call succeeds or raises: two consecutive ones raise it
  by 1 each, and a Happy adaptation after them leaves it as it is. For every adapter
  and every call, an adaptation with another emotion than Frustrated leaves the whole
  adapter unchanged, and no adaptation lowers any session's counter. Without a remote
  model, or without a session id in the context, an adaptation with any emotion,
  Frustrated too, leaves the whole adapter unchanged: nothing is counted.
\<close>

theorem frustration_counter_step:
  "(adapter_gemini_model a = Some g \<and> session_id_of ctx = Some sid \<longrightarrow>
      (let a1 = snd (adjust_response_based_on_emotion lw a (ustr ''Frustrated'') b1 m1 ctx);
           a2 = snd (adjust_response_based_on_emotion lw a1 (ustr ''Frustrated'') b2 m2 ctx);
           a3 = snd (adjust_response_based_on_emotion lw a2 (ustr ''Happy'') b3 m3 ctx)
       in get_frustration_level a1 sid = get_frustration_level a sid + 1 \<and>
          get_frustration_level a2 sid = get_frustration_level a1 sid + 1 \<and>
          get_frustration_level a3 sid = get_frustration_level a2 sid)) \<and>
   (emotion \<noteq> ustr ''Frustrated'' \<longrightarrow>
      snd (adjust_response_based_on_emotion lw a emotion b m c) = a) \<and>
   get_frustration_level a s \<le>
     get_frustration_level (snd (adjust_response_based_on_emotion lw a emotion b m c)) s \<and>
   (adapter_gemini_model a = None \<longrightarrow>
      snd (adjust_response_based_on_emotion lw a emotion b m c) = a) \<and>
   (session_id_of c = None \<longrightarrow>
      snd (adjust_response_based_on_emotion lw a emotion b m c) = a)"
proof (intro conjI impI)
  let ?F = "ustr ''Frustrated''"
  assume h: "adapter_gemini_model a = Some g \<and> session_id_of ctx = Some sid"
  have step: "snd (adjust_response_based_on_emotion lw x ?F b' m' ctx) =
      x\<lparr>frustration_tracker := (frustration_tracker x)(sid \<mapsto> get_frustration_level x sid + 1)\<rparr>"
    if "adapter_gemini_model x = Some g" for x b' m'
    using that h by (simp add: adjust_adapter get_emotion_prompt_tracker)
  have other: "snd (adjust_response_based_on_emotion lw x e b' m' c') = x"
    if "e \<noteq> ?F" for x e b' m' c'
    using that by (simp add: adjust_adapter get_emotion_prompt_tracker split: option.splits)
  have HF: "ustr ''Happy'' \<noteq> ?F" by (simp add: ustr_def)
  show "let a1 = snd (adjust_response_based_on_emotion lw a ?F b1 m1 ctx);
            a2 = snd (adjust_response_based_on_emotion lw a1 ?F b2 m2 ctx);
            a3 = snd (adjust_response_based_on_emotion lw a2 (ustr ''Happy'') b3 m3 ctx)
        in get_frustration_level a1 sid = get_frustration_level a sid + 1 \<and>
           get_frustration_level a2 sid = get_frustration_level a1 sid + 1 \<and>
           get_frustration_level a3 sid = get_frustration_level a2 sid"
    using h other HF by (simp add: Let_def step get_frustration_level_def)
next
  assume "emotion \<noteq> ustr ''Frustrated''"
  then show "snd (adjust_response_based_on_emotion lw a emotion b m c) = a"
    by (simp add: adjust_adapter get_emotion_prompt_tracker split: option.splits)
next
  show "get_frustration_level a s \<le>
     get_frustration_level (snd (adjust_response_based_on_emotion lw a emotion b m c)) s"
    by (simp add: adjust_adapter get_emotion_prompt_tracker get_frustration_level_def
        split: option.splits)
next
  assume "adapter_gemini_model a = None"
  then show "snd (adjust_response_based_on_emotion lw a emotion b m c) = a"
    by (simp add: adjust_adapter)
next
  assume "session_id_of c = None"
  then show "snd (adjust_response_based_on_emotion lw a emotion b m c) = a"
    by (simp add: adjust_adapter get_emotion_prompt_tracker split: option.splits)
qed

theorem frustration_counter_step_witness:
  "get_frustration_level
     (snd (adjust_response_based_on_emotion lower_ascii
        \<lparr>adapter_gemini_model = Some call_raises, frustration_tracker = Map.empty\<rparr>
        (ustr ''Frustrated'') (ustr ''The fee is BD 3.300.'') (ustr ''Why is this so expensive?'')
        (Some [(ustr ''session_id'', ustr ''test-session'')])))
     (ustr ''test-session'') = 1 \<and>
   snd (adjust_response_based_on_emotion lower_ascii
        \<lparr>adapter_gemini_model = Some call_raises, frustration_tracker = Map.empty\<rparr>
        (ustr ''Happy'') (ustr ''The fee is BD 3.300.'') (ustr ''Thanks!'')
        (Some [(ustr ''session_id'', ustr ''test-session'')]))
     = \<lparr>adapter_gemini_model = Some call_raises, frustration_tracker = Map.empty\<rparr> \<and>
   snd (adjust_response_based_on_emotion lower_ascii
        \<lparr>adapter_gemini_model = None, frustration_tracker = Map.empty\<rparr>
        (ustr ''Frustrated'') (ustr ''The fee is BD 3.300.'') (ustr ''Why is this so expensive?'')
        (Some [(ustr ''session_id'', ustr ''test-session'')]))
     = \<lparr>adapter_gemini_model = None, frustration_tracker = Map.empty\<rparr> \<and>
   snd (adjust_response_based_on_emotion lower_ascii
        \<lparr>adapter_gemini_model = Some call_raises, frustration_tracker = Map.empty\<rparr>
        (ustr ''Frustrated'') (ustr ''The fee is BD 3.300.'') (ustr ''Why is this so expensive?'')
        None)
     = \<lparr>adapter_gemini_model = Some call_raises, frustration_tracker = Map.empty\<rparr>"
proof -
  let ?a = "\<lparr>adapter_gemini_model = Some call_raises, frustration_tracker = Map.empty\<rparr>"
  let ?n = "\<lparr>adapter_gemini_model = None, frustration_tracker = Map.empty\<rparr>"
  let ?ctx = "Some [(ustr ''session_id'', ustr ''test-session'')]"
  let ?F = "ustr ''Frustrated''"
  let ?b = "ustr ''The fee is BD 3.300.''"
  let ?m = "ustr ''Why is this so expensive?''"
  have 1: "adapter_gemini_model ?a = Some call_raises" by simp
  have 2: "session_id_of ?ctx = Some (ustr ''test-session'')"
    by (simp add: session_id_of_def ustr_def)
  have 3: "get_frustration_level ?a (ustr ''test-session'') = 0"
    by (simp add: get_frustration_level_def)
  have 4: "ustr ''Happy'' \<noteq> ?F" by (simp add: ustr_def)
  have 5: "adapter_gemini_model ?n = None" by simp
  have 6: "session_id_of None = None" by (simp add: session_id_of_def)
  note w1 = frustration_counter_step [of ?a call_raises ?ctx "ustr ''test-session''"
      lower_ascii ?b ?m ?b ?m ?b ?m]
  note w2 = frustration_counter_step [of ?a call_raises ?ctx "ustr ''test-session''"
      lower_ascii ?b ?m ?b ?m ?b ?m "ustr ''Happy''" ?b "ustr ''Thanks!''" ?ctx]
  note w3 = frustration_counter_step [of ?n call_raises ?ctx "ustr ''test-session''"
      lower_ascii ?b ?m ?b ?m ?b ?m ?F ?b ?m ?ctx]
  note w4 = frustration_counter_step [of ?a call_raises ?ctx "ustr ''test-session''"
      lower_ascii ?b ?m ?b ?m ?b ?m ?F ?b ?m None]
  from w1 1 2 3 have a: "get_frustration_level
      (snd (adjust_response_based_on_emotion lower_ascii ?a ?F ?b ?m ?ctx))
      (ustr ''test-session'') = 1"
    by (simp add: Let_def)
  from w2 4 have b: "snd (adjust_response_based_on_emotion lower_ascii ?a (ustr ''Happy'') ?b
      (ustr ''Thanks!'') ?ctx) = ?a" by blast
  from w3 5 have c: "snd (adjust_response_based_on_emotion lower_ascii ?n ?F ?b ?m ?ctx) = ?n"
    by blast
  from w4 6 have d: "snd (adjust_response_based_on_emotion lower_ascii ?a ?F ?b ?m None) = ?a"
    by blast
  from a b c d show ?thesis by blast
qed

section \<open>The escalation offer\<close>

text \<open>
  Claim C7. A Frustrated adaptation for a session whose counter, as the call leaves it,
  is 2 or more, and whose rewritten text (the stripped remote reply) contains neither
  \<open>contact\<close> nor \<open>representative\<close> once lower-cased, returns the rewritten text with
  the escalation offer appended; the returned text contains the lower-case word
  \<open>contact\<close>.
\<close>

theorem escalation_offer_appended:
  assumes "adapter_gemini_model a = Some g"
      and "session_id_of ctx = Some sid"
      and "adjust_response_based_on_emotion lw a (ustr ''Frustrated'') base msg ctx = (out, a')"
      and "2 \<le> get_frustration_level a' sid"
      and "g (full_prompt (fst (get_emotion_prompt a (ustr ''Frustrated'') ctx)) msg
             (ustr ''Frustrated'') base) = Inr reply"
      and "\<not> contains (lw (strip reply)) (ustr ''contact'')"
      and "\<not> contains (lw (strip reply)) (ustr ''representative'')"
  shows "out = strip reply @ escalation_offer \<and> contains out (ustr ''contact'')"
proof -
  let ?F = "ustr ''Frustrated''"
  have FC: "?F \<noteq> ustr ''Confused''" and FS: "?F \<noteq> ustr ''Sad''" by (simp_all add: ustr_def)
  obtain p a1 where gp: "get_emotion_prompt a ?F ctx = (p, a1)" by (cases "get_emotion_prompt a ?F ctx")
  with assms(1,3,5) have a': "a' = a1"
    and out: "out = add_emotion_enhancements lw a1 (strip reply) ?F msg ctx"
    by (auto simp: adjust_response_based_on_emotion_def)
  from assms(2,4,6,7) a' FC FS have "out = strip reply @ escalation_offer"
    unfolding out by (simp add: add_emotion_enhancements_def Let_def)
  moreover have "contains escalation_offer (ustr ''contact'')"
    by (simp add: escalation_offer_def ustr_def startswith_def)
  ultimately show ?thesis by (simp add: contains_append_right)
qed

theorem escalation_offer_appended_witness:
  "adjust_response_based_on_emotion lower_ascii
     \<lparr>adapter_gemini_model =
        Some (reply_with (ustr ''I understand your concern about the cost. The fee is BD 3.300.'')),
      frustration_tracker = [ustr ''test-session'' \<mapsto> 1]\<rparr>
     (ustr ''Frustrated'') (ustr ''The fee is BD 3.300.'') (ustr ''Why is this so expensive?'')
     (Some [(ustr ''session_id'', ustr ''test-session'')])
   = (ustr ''I understand your concern about the cost. The fee is BD 3.300.'' @ escalation_offer,
      \<lparr>adapter_gemini_model =
        Some (reply_with (ustr ''I understand your concern about the cost. The fee is BD 3.300.'')),
      frustration_tracker = [ustr ''test-session'' \<mapsto> 2]\<rparr>)"
proof -
  let ?r = "ustr ''I understand your concern about the cost. The fee is BD 3.300.''"
  let ?a = "\<lparr>adapter_gemini_model = Some (reply_with ?r),
      frustration_tracker = [ustr ''test-session'' \<mapsto> 1]\<rparr>"
  let ?a' = "\<lparr>adapter_gemini_model = Some (reply_with ?r),
      frustration_tracker = [ustr ''test-session'' \<mapsto> (2::int)]\<rparr>"
  let ?ctx = "Some [(ustr ''session_id'', ustr ''test-session'')]"
  let ?res = "adjust_response_based_on_emotion lower_ascii ?a (ustr ''Frustrated'')
      (ustr ''The fee is BD 3.300.'') (ustr ''Why is this so expensive?'') ?ctx"
  have 1: "adapter_gemini_model ?a = Some (reply_with ?r)" by simp
  have 2: "session_id_of ?ctx = Some (ustr ''test-session'')"
    by (simp add: session_id_of_def ustr_def)
  have s: "snd ?res = ?a'"
    using 2 by (simp add: adjust_adapter get_emotion_prompt_tracker get_frustration_level_def)
  then have 3: "?res = (fst ?res, ?a')" by (metis prod.collapse)
  have 4: "2 \<le> get_frustration_level ?a' (ustr ''test-session'')"
    by (simp add: get_frustration_level_def)
  have 5: "reply_with ?r (full_prompt (fst (get_emotion_prompt ?a (ustr ''Frustrated'') ?ctx))
      (ustr ''Why is this so expensive?'') (ustr ''Frustrated'') (ustr ''The fee is BD 3.300.'')) = Inr ?r"
    by (simp add: reply_with_def)
  have st: "strip ?r = ?r" by (simp add: strip_def ustr_def isspace_def)
  have 6: "\<not> contains (lower_ascii (strip ?r)) (ustr ''contact'')"
    unfolding st by (simp add: lower_ascii_def ustr_def startswith_def)
  have 7: "\<not> contains (lower_ascii (strip ?r)) (ustr ''representative'')"
    unfolding st by (simp add: lower_ascii_def ustr_def startswith_def)
  from escalation_offer_appended [OF 1 2 3 4 5 6 7] st 3 show ?thesis by simp
qed

section \<open>The local classifier\<close>

lemma distinct_TARGET: "distinct TARGET_EMOTIONS"
  by (simp add: TARGET_EMOTIONS_def ustr_def)

lemma target_emotion_in: "target_emotion l \<in> set TARGET_EMOTIONS"
  by (simp add: target_emotion_def EMOTION_MAPPING_def TARGET_EMOTIONS_def ustr_def)

lemma target_emotion_table:
  "target_emotion (ustr ''joy'') = ustr ''Happy''"
  "target_emotion (ustr ''neutral'') = ustr ''Neutral''"
  "target_emotion (ustr ''surprise'') = ustr ''Confused''"
  "target_emotion (ustr ''anger'') = ustr ''Frustrated''"
  "target_emotion (ustr ''sadness'') = ustr ''Sad''"
  "target_emotion (ustr ''fear'') = ustr ''Confused''"
  "target_emotion (ustr ''disgust'') = ustr ''Frustrated''"
  by (simp_all add: target_emotion_def EMOTION_MAPPING_def ustr_def)

lemma add_score_keys: "map fst (add_score d k s) = map fst d"
  by (induction d) (auto simp: add_score_def)

lemma add_score_get:
  "distinct (map fst d) \<Longrightarrow>
   map_of (add_score d k s) e =
     (case map_of d e of None \<Rightarrow> None | Some v \<Rightarrow> Some (if e = k then v + s else v))"
  by (induction d) (auto simp: add_score_def split: option.splits)

lemma add_score_sum:
  "distinct (map fst d) \<Longrightarrow> k \<in> fst ` set d \<Longrightarrow>
   sum_list (map snd (add_score d k s)) = sum_list (map snd d) + s"
proof (induction d)
  case Nil
  then show ?case by simp
next
  case (Cons x d)
  obtain e v where x: "x = (e, v)" by (cases x)
  show ?case
  proof (cases "e = k")
    case True
    with Cons.prems x have "k \<notin> fst ` set d" by auto
    then have "add_score d k s = d"
      by (induction d) (auto simp: add_score_def)
    with True x show ?thesis by (simp add: add_score_def)
  next
    case False
    with Cons x show ?thesis by (auto simp: add_score_def)
  qed
qed


lemma fold_keys:
  "map fst (foldl (\<lambda>d (l, s). add_score d (target_emotion l) s) d0 ps) = map fst d0"
  by (induction ps arbitrary: d0) (auto simp: add_score_keys)

lemma fold_get:
  "distinct (map fst d0) \<Longrightarrow>
   map_of (foldl (\<lambda>d (l, s). add_score d (target_emotion l) s) d0 ps) e =
     (case map_of d0 e of None \<Rightarrow> None | Some v \<Rightarrow> Some (v + spec_raw_score ps e))"
proof (induction ps arbitrary: d0)
  case Nil
  then show ?case by (simp add: spec_raw_score_def split: option.splits)
next
  case (Cons p ps)
  obtain l s where p: "p = (l, s)" by (cases p)
  from Cons.prems have d: "distinct (map fst (add_score d0 (target_emotion l) s))"
    by (simp add: add_score_keys)
  show ?case
    using Cons.IH [OF d] Cons.prems
    by (auto simp: p add_score_get spec_raw_score_def split: option.splits)
qed

lemma fold_sum:
  "distinct (map fst d0) \<Longrightarrow> set TARGET_EMOTIONS \<subseteq> fst ` set d0 \<Longrightarrow>
   sum_list (map snd (foldl (\<lambda>d (l, s). add_score d (target_emotion l) s) d0 ps)) =
     sum_list (map snd d0) + sum_list (map snd ps)"
proof (induction ps arbitrary: d0)
  case Nil
  then show ?case by simp
next
  case (Cons p ps)
  obtain l s where p: "p = (l, s)" by (cases p)
  let ?d1 = "add_score d0 (target_emotion l) s"
  from Cons.prems have d: "distinct (map fst ?d1)" by (simp add: add_score_keys)
  have k: "fst ` set ?d1 = fst ` set d0"
    by (metis add_score_keys list.set_map)
  from Cons.prems target_emotion_in [of l] have "target_emotion l \<in> fst ` set d0" by auto
  with Cons.prems have "sum_list (map snd ?d1) = sum_list (map snd d0) + s"
    by (simp add: add_score_sum)
  with Cons.IH [OF d] Cons.prems k show ?case by (simp add: p)
qed

lemma accumulate_keys: "map fst (accumulate ps) = TARGET_EMOTIONS"
  by (simp add: accumulate_def fold_keys comp_def)

lemma accumulate_get:
  "e \<in> set TARGET_EMOTIONS \<Longrightarrow> map_of (accumulate ps) e = Some (spec_raw_score ps e)"
  using distinct_TARGET
  by (simp add: accumulate_def fold_get comp_def map_of_map_restrict restrict_map_def)

lemma accumulate_sum: "sum_list (map snd (accumulate ps)) = sum_list (map snd ps)"
proof -
  have "sum_list (map snd (map (\<lambda>emotion. (emotion, 0::real)) TARGET_EMOTIONS)) = 0"
    by (simp add: comp_def)
  moreover have "fst ` set (map (\<lambda>emotion. (emotion, 0::real)) TARGET_EMOTIONS) = set TARGET_EMOTIONS"
    by force
  ultimately show ?thesis
    unfolding accumulate_def using distinct_TARGET
    by (subst fold_sum) (simp_all add: comp_def)
qed


lemma normalize_keys: "map fst (normalize_scores d) = map fst d"
  by (simp add: normalize_scores_def Let_def comp_def case_prod_unfold)

lemma sum_list_div: "sum_list (map (\<lambda>p. snd p / t) d) = sum_list (map snd d) / (t::real)"
  by (induction d) (simp_all add: add_divide_distrib)

lemma normalize_sum:
  "0 < sum_list (map snd d) \<Longrightarrow> sum_list (map snd (normalize_scores d)) = 1"
  by (simp add: normalize_scores_def Let_def comp_def case_prod_unfold sum_list_div)

lemma normalize_get:
  "map_of (normalize_scores d) e =
     map_option (\<lambda>v. if 0 < sum_list (map snd d) then v / sum_list (map snd d) else v) (map_of d e)"
proof -
  have "map_of (map (\<lambda>(k, v). (k, v / t)) d) e = map_option (\<lambda>v. v / t) (map_of d e)" for t :: real
    by (induction d) auto
  then show ?thesis by (simp add: normalize_scores_def Let_def option.map_ident)
qed

lemma accumulate_nonneg:
  assumes "\<forall>p\<in>set ps. 0 \<le> snd p"
  shows "\<forall>x\<in>set (accumulate ps). 0 \<le> snd x"
proof
  fix x assume x: "x \<in> set (accumulate ps)"
  obtain e v where ev: "x = (e, v)" by (cases x)
  have dk: "distinct (map fst (accumulate ps))" by (simp add: accumulate_keys distinct_TARGET)
  from x ev have "e \<in> set TARGET_EMOTIONS"
    by (metis accumulate_keys fst_conv image_eqI list.set_map)
  then have "map_of (accumulate ps) e = Some (spec_raw_score ps e)" by (rule accumulate_get)
  moreover from dk x ev have "map_of (accumulate ps) e = Some v" by simp
  ultimately have "v = spec_raw_score ps e" by simp
  moreover from assms have "0 \<le> spec_raw_score ps e"
    unfolding spec_raw_score_def by (intro sum_list_nonneg) auto
  ultimately show "0 \<le> snd x" by (simp add: ev)
qed

lemma normalize_range:
  assumes "\<forall>x\<in>set d. 0 \<le> snd x"
  shows "\<forall>x\<in>set (normalize_scores d). 0 \<le> snd x \<and> snd x \<le> 1"
proof (cases "0 < sum_list (map snd d)")
  case True
  have "v \<le> sum_list (map snd d)" if "(k, v) \<in> set d" for k v
    using that assms member_le_sum_list [of v "map snd d"] by force
  with True assms show ?thesis
    by (auto simp: normalize_scores_def Let_def)
next
  case False
  moreover from assms have "0 \<le> sum_list (map snd d)" by (intro sum_list_nonneg) auto
  ultimately have z: "sum_list (map snd d) = 0" by simp
  with assms have "\<forall>x\<in>set d. snd x = 0"
    using sum_list_nonneg_eq_0_iff [of "map snd d"] by auto
  with False show ?thesis by (simp add: normalize_scores_def Let_def)
qed

lemma max_from_split:
  "\<exists>pre post. b # xs = pre @ max_from b xs # post \<and>
     (\<forall>x\<in>set pre. snd x < snd (max_from b xs)) \<and>
     (\<forall>x\<in>set post. snd x \<le> snd (max_from b xs))"
proof (induction xs arbitrary: b)
  case Nil
  show ?case by (intro exI [of _ "[]"]) simp
next
  case (Cons x xs)
  define b' where "b' = (if snd b < snd x then x else b)"
  define r where "r = max_from b' xs"
  have r: "max_from b (x # xs) = r" by (simp add: r_def b'_def)
  from Cons [of b'] obtain pre post where s: "b' # xs = pre @ r # post"
    and lt: "\<forall>y\<in>set pre. snd y < snd r" and le: "\<forall>y\<in>set post. snd y \<le> snd r"
    unfolding r_def by blast
  have hb: "snd b' \<le> snd r"
  proof (cases pre)
    case Nil
    with s show ?thesis by simp
  next
    case (Cons p pre')
    with s lt show ?thesis by auto
  qed
  show ?case
  proof (cases "snd b < snd x")
    case True
    then have "b' = x" by (simp add: b'_def)
    with s have "b # x # xs = (b # pre) @ r # post" by simp
    moreover from True hb \<open>b' = x\<close> have "snd b < snd r" by simp
    ultimately show ?thesis using lt le unfolding r
      by (intro exI [of _ "b # pre"] exI [of _ post]) simp
  next
    case False
    then have b': "b' = b" by (simp add: b'_def)
    show ?thesis
    proof (cases pre)
      case Nil
      with s b' have "r = b" "post = xs" by simp_all
      with False le have "b # x # xs = [] @ r # (x # xs)" "\<forall>y\<in>set (x # xs). snd y \<le> snd r"
        by auto
      then show ?thesis unfolding r
        by (intro exI [of _ "[]"] exI [of _ "x # xs"]) simp
    next
      case (Cons p pre')
      with s b' have p: "p = b" and xs: "xs = pre' @ r # post" by simp_all
      from lt Cons p have "snd b < snd r" by simp
      with False have "snd x < snd r" by simp
      with lt Cons p xs \<open>snd b < snd r\<close> le show ?thesis unfolding r
        by (intro exI [of _ "b # x # pre'"] exI [of _ post]) auto
    qed
  qed
qed


lemma hf_result:
  assumes "emotion_pipeline d = Some pipeline" and "pipeline text = Inr predictions"
  shows "\<exists>r pre post. detect_with_hf_model d text = Inr r \<and>
           scores r = normalize_scores (accumulate predictions) \<and>
           scores r = pre @ (label r, confidence r) # post \<and>
           (\<forall>x\<in>set pre. snd x < confidence r) \<and>
           (\<forall>x\<in>set post. snd x \<le> confidence r)"
proof -
  let ?s = "normalize_scores (accumulate predictions)"
  have "map fst ?s = TARGET_EMOTIONS" by (simp add: normalize_keys accumulate_keys)
  then have "?s \<noteq> []" by (auto simp: TARGET_EMOTIONS_def)
  then obtain x xs where s: "?s = x # xs" by (cases ?s) auto
  from max_from_split [of x xs] obtain pre post where
    sp: "x # xs = pre @ max_from x xs # post"
    "\<forall>y\<in>set pre. snd y < snd (max_from x xs)"
    "\<forall>y\<in>set post. snd y \<le> snd (max_from x xs)" by blast
  let ?r = "\<lparr>label = fst (max_from x xs), confidence = snd (max_from x xs), scores = ?s\<rparr>"
  from assms s have "detect_with_hf_model d text = Inr ?r"
    by (simp add: detect_with_hf_model_def max_item_def Let_def)
  moreover from sp(1) s have "scores ?r = pre @ (label ?r, confidence ?r) # post" by simp
  ultimately show ?thesis using sp(2,3)
    by (intro exI [of _ ?r] exI [of _ pre] exI [of _ post]) simp
qed

text \<open>
  Claim C2. On predictions with non-negative scores, as a classification model emits
  them, \<open>_detect_with_hf_model\<close> returns a result such that: the native labels are
  remapped by the fixed table; the scores dictionary has the five target labels in the
  order Happy, Neutral, Confused, Frustrated, Sad; the value of a label is its
  accumulated score divided by the raw total, or 0 for every label when the raw total
  is 0; the values sum to 1 when the raw total is not 0; and the label and confidence
  are an entry of the dictionary that every earlier entry is strictly below and no later
  entry is above, which is the first arg-max in that order.
\<close>

theorem classifier_distribution:
  assumes "emotion_pipeline d = Some pipeline" and "pipeline text = Inr predictions"
      and "\<forall>p\<in>set predictions. 0 \<le> snd p"
  shows "target_emotion (ustr ''joy'') = ustr ''Happy'' \<and>
         target_emotion (ustr ''neutral'') = ustr ''Neutral'' \<and>
         target_emotion (ustr ''surprise'') = ustr ''Confused'' \<and>
         target_emotion (ustr ''anger'') = ustr ''Frustrated'' \<and>
         target_emotion (ustr ''sadness'') = ustr ''Sad'' \<and>
         target_emotion (ustr ''fear'') = ustr ''Confused'' \<and>
         target_emotion (ustr ''disgust'') = ustr ''Frustrated'' \<and>
         (\<exists>r total. detect_with_hf_model d text = Inr r \<and>
            total = sum_list (map (spec_raw_score predictions) TARGET_EMOTIONS) \<and>
            total = sum_list (map snd predictions) \<and>
            map fst (scores r) = TARGET_EMOTIONS \<and>
            (\<forall>e\<in>set TARGET_EMOTIONS.
               map_of (scores r) e =
                 Some (if total = 0 then 0 else spec_raw_score predictions e / total)) \<and>
            (total \<noteq> 0 \<longrightarrow> sum_list (map snd (scores r)) = 1) \<and>
            (\<exists>pre post. scores r = pre @ (label r, confidence r) # post \<and>
               (\<forall>x\<in>set pre. snd x < confidence r) \<and>
               (\<forall>x\<in>set post. snd x \<le> confidence r)))"
proof -
  let ?acc = "accumulate predictions"
  let ?t = "sum_list (map snd ?acc)"
  from hf_result [OF assms(1,2)] obtain r pre post where
    r: "detect_with_hf_model d text = Inr r" and sc: "scores r = normalize_scores ?acc"
    and sp: "scores r = pre @ (label r, confidence r) # post"
      "\<forall>x\<in>set pre. snd x < confidence r" "\<forall>x\<in>set post. snd x \<le> confidence r"
    by blast
  have keys: "map fst (scores r) = TARGET_EMOTIONS"
    by (simp add: sc normalize_keys accumulate_keys)
  have acc: "?acc = map (\<lambda>e. (e, spec_raw_score predictions e)) TARGET_EMOTIONS"
  proof (rule nth_equalityI)
    show "length ?acc = length (map (\<lambda>e. (e, spec_raw_score predictions e)) TARGET_EMOTIONS)"
      by (metis accumulate_keys length_map)
  next
    fix i assume i: "i < length ?acc"
    then have il: "i < length TARGET_EMOTIONS" by (metis accumulate_keys length_map)
    from i have f: "fst (?acc ! i) = TARGET_EMOTIONS ! i" by (metis accumulate_keys nth_map)
    have "distinct (map fst ?acc)" by (simp add: accumulate_keys distinct_TARGET)
    with i have "map_of ?acc (fst (?acc ! i)) = Some (snd (?acc ! i))"
      by (metis map_of_eq_Some_iff nth_mem prod.collapse)
    moreover have "map_of ?acc (TARGET_EMOTIONS ! i) = Some (spec_raw_score predictions (TARGET_EMOTIONS ! i))"
      using il by (intro accumulate_get) simp
    ultimately have "snd (?acc ! i) = spec_raw_score predictions (TARGET_EMOTIONS ! i)" by (simp add: f)
    with f il show "?acc ! i = map (\<lambda>e. (e, spec_raw_score predictions e)) TARGET_EMOTIONS ! i"
      by (simp add: prod_eq_iff)
  qed
  have t: "?t = sum_list (map (spec_raw_score predictions) TARGET_EMOTIONS)"
    by (subst acc) (simp add: comp_def)
  have nn: "\<forall>x\<in>set ?acc. 0 \<le> snd x" using assms(3) by (rule accumulate_nonneg)
  then have t0: "0 \<le> ?t" by (intro sum_list_nonneg) auto
  have zero: "spec_raw_score predictions e = 0" if "?t = 0" "e \<in> set TARGET_EMOTIONS" for e
  proof -
    from nn that(1) have "\<forall>x\<in>set ?acc. snd x = 0"
      using sum_list_nonneg_eq_0_iff [of "map snd ?acc"] by auto
    moreover from that(2) have "(e, spec_raw_score predictions e) \<in> set ?acc"
      by (subst acc) auto
    ultimately show ?thesis by force
  qed
  have get: "map_of (scores r) e = Some (if ?t = 0 then 0 else spec_raw_score predictions e / ?t)"
    if "e \<in> set TARGET_EMOTIONS" for e
    using that t0 zero [of e] by (simp add: sc normalize_get accumulate_get)
  have one: "?t \<noteq> 0 \<longrightarrow> sum_list (map snd (scores r)) = 1"
    using t0 by (simp add: sc normalize_sum)
  have t2: "?t = sum_list (map snd predictions)" by (rule accumulate_sum)
  from r keys get one sp t2 show ?thesis
    unfolding t [symmetric] by (simp add: target_emotion_table) blast
qed

theorem classifier_distribution_witness:
  "detect_with_hf_model
     \<lparr>confidence_threshold = 3 / 10, use_gemini_fallback = False,
      emotion_pipeline =
        Some (predict_with [(ustr ''joy'', 1 / 10), (ustr ''fear'', 2 / 10),
                            (ustr ''surprise'', 2 / 10), (ustr ''anger'', 4 / 10)]),
      gemini_model = None\<rparr> (ustr ''What is the fee for the card?'')
   = Inr \<lparr>label = ustr ''Confused'', confidence = 4 / 9,
          scores = [(ustr ''Happy'', 1 / 9), (ustr ''Neutral'', 0), (ustr ''Confused'', 4 / 9),
                    (ustr ''Frustrated'', 4 / 9), (ustr ''Sad'', 0)]\<rparr> \<and>
   sum_list (map snd [(ustr ''Happy'', 1 / 9), (ustr ''Neutral'', 0), (ustr ''Confused'', 4 / 9),
                    (ustr ''Frustrated'', 4 / 9), (ustr ''Sad'', 0 :: real)]) = 1"
proof -
  let ?P = "[(ustr ''joy'', 1 / 10), (ustr ''fear'', 2 / 10),
             (ustr ''surprise'', 2 / 10), (ustr ''anger'', 4 / (10::real))]"
  let ?d = "\<lparr>confidence_threshold = 3 / 10, use_gemini_fallback = False,
      emotion_pipeline = Some (predict_with ?P), gemini_model = None\<rparr>"
  let ?t = "ustr ''What is the fee for the card?''"
  let ?R = "\<lparr>label = ustr ''Confused'', confidence = 4 / 9,
          scores = [(ustr ''Happy'', 1 / 9), (ustr ''Neutral'', 0), (ustr ''Confused'', 4 / 9),
                    (ustr ''Frustrated'', 4 / 9), (ustr ''Sad'', 0)]\<rparr>"
  have 1: "emotion_pipeline ?d = Some (predict_with ?P)" by simp
  have 2: "predict_with ?P ?t = Inr ?P" by (simp add: predict_with_def)
  have 3: "\<forall>p\<in>set ?P. 0 \<le> snd p" by simp
  have tot: "sum_list (map (spec_raw_score ?P) TARGET_EMOTIONS) \<noteq> 0"
    by (simp add: spec_raw_score_def TARGET_EMOTIONS_def target_emotion_def EMOTION_MAPPING_def
        ustr_def)
  have ev: "detect_with_hf_model ?d ?t = Inr ?R"
    by (simp add: detect_with_hf_model_def predict_with_def accumulate_def add_score_def
        normalize_scores_def max_item_def TARGET_EMOTIONS_def target_emotion_def
        EMOTION_MAPPING_def ustr_def)
  from classifier_distribution [OF 1 2 3] obtain r where
    r: "detect_with_hf_model ?d ?t = Inr r"
    and s: "sum_list (map (spec_raw_score ?P) TARGET_EMOTIONS) \<noteq> 0 \<longrightarrow>
            sum_list (map snd (scores r)) = 1"
    by blast
  from r ev have "r = ?R" by simp
  with s tot ev show ?thesis by simp
qed

section \<open>The remote fallback\<close>

lemma not_both: "\<not> (is_emotion_line l \<and> is_confidence_line l)"
  by (cases l) (auto simp: is_emotion_line_def is_confidence_line_def startswith_def ustr_def)

lemma gemini_line_cases:
  "gemini_line pf st l =
     (if is_emotion_line l then (strip (after_colon l), snd st)
      else if is_confidence_line l then
        (fst st, (case pf (strip (after_colon l)) of Some x \<Rightarrow> x | None \<Rightarrow> 1 / 2))
      else st)"
  by (simp add: gemini_line_def is_emotion_line_def is_confidence_line_def)

lemma gemini_fold:
  "foldl (gemini_line pf) (l0, c0) ls = (spec_reported_label l0 ls, spec_reported_confidence pf c0 ls)"
proof (induction ls rule: rev_induct)
  case Nil
  show ?case by (simp add: spec_reported_label_def spec_reported_confidence_def)
next
  case (snoc x xs)
  show ?case
  proof (cases "is_emotion_line x")
    case True
    with not_both [of x] have nc: "\<not> is_confidence_line x" by simp
    from True nc snoc show ?thesis
      by (simp add: gemini_line_cases spec_reported_label_def spec_reported_confidence_def split: list.splits)
  next
    case False
    with snoc show ?thesis
      by (simp add: gemini_line_cases spec_reported_label_def spec_reported_confidence_def split: list.splits)
  qed
qed

lemma gemini_scores_keys: "map fst (gemini_scores l c) = TARGET_EMOTIONS"
  by (simp add: gemini_scores_def comp_def)

lemma gemini_scores_get:
  "e \<in> set TARGET_EMOTIONS \<Longrightarrow> map_of (gemini_scores l c) e = Some (if e = l then c else (1 - c) / 4)"
  by (simp add: gemini_scores_def map_of_map_restrict restrict_map_def)

text \<open>
  Claim C5. For every reply of the remote model, \<open>_detect_with_gemini\<close> returns a result
  whose label and confidence depend only on the last line that starts with
  \<open>EMOTION:\<close> and the last line that starts with \<open>CONFIDENCE:\<close>, wherever they
  stand and whatever other lines surround them. The label is the reported one when it
  is one of the five and Neutral otherwise (also when no label is reported); the
  confidence is the float of the confidence line, 0.5 when the line is missing or
  \<open>float\<close> fails on it; the scores give the confidence to the label and
  \<open>(1 - confidence) / 4\<close> to each of the other four.
\<close>

theorem remote_reply_parsed:
  assumes "gemini_model d = Some g" and "g (gemini_prompt text) = Inr reply"
  shows "\<exists>r. detect_with_gemini pf d text = Some r \<and>
           label r = (let l = spec_reported_label (ustr ''Neutral'') (split_nl (strip reply))
                      in if l \<in> set TARGET_EMOTIONS then l else ustr ''Neutral'') \<and>
           confidence r = spec_reported_confidence pf (1 / 2) (split_nl (strip reply)) \<and>
           map fst (scores r) = TARGET_EMOTIONS \<and>
           (\<forall>e\<in>set TARGET_EMOTIONS.
              map_of (scores r) e =
                Some (if e = label r then confidence r else (1 - confidence r) / 4))"
  using assms
  by (simp add: detect_with_gemini_def Let_def gemini_fold gemini_scores_keys gemini_scores_get)

theorem remote_reply_parsed_witness:
  "map_option label
     (detect_with_gemini float_dec
        \<lparr>confidence_threshold = 3 / 10, use_gemini_fallback = True, emotion_pipeline = None,
         gemini_model = Some (reply_with (ustr ''EMOTION: Excited''))\<rparr> (ustr ''hi''))
   = Some (ustr ''Neutral'') \<and>
   map_option confidence
     (detect_with_gemini float_dec
        \<lparr>confidence_threshold = 3 / 10, use_gemini_fallback = True, emotion_pipeline = None,
         gemini_model = Some (reply_with (ustr ''EMOTION: Excited''))\<rparr> (ustr ''hi''))
   = Some (1 / 2)"
proof -
  let ?reply = "ustr ''EMOTION: Excited''"
  let ?d = "\<lparr>confidence_threshold = 3 / 10, use_gemini_fallback = True, emotion_pipeline = None,
         gemini_model = Some (reply_with ?reply)\<rparr>"
  have 1: "gemini_model ?d = Some (reply_with ?reply)" by simp
  have 2: "reply_with ?reply (gemini_prompt (ustr ''hi'')) = Inr ?reply" by (simp add: reply_with_def)
  have l: "spec_reported_label (ustr ''Neutral'') (split_nl (strip ?reply)) = ustr ''Excited''"
    by (simp add: spec_reported_label_def is_emotion_line_def startswith_def after_colon_def
        strip_def isspace_def ustr_def)
  have c: "spec_reported_confidence float_dec (1 / 2) (split_nl (strip ?reply)) = 1 / 2"
    by (simp add: spec_reported_confidence_def is_confidence_line_def startswith_def
        strip_def isspace_def ustr_def)
  have n: "ustr ''Excited'' \<notin> set TARGET_EMOTIONS" by (simp add: TARGET_EMOTIONS_def ustr_def)
  from remote_reply_parsed [OF 1 2, of float_dec] obtain r where
    "detect_with_gemini float_dec ?d (ustr ''hi'') = Some r"
    "label r = (let l = spec_reported_label (ustr ''Neutral'') (split_nl (strip ?reply))
                in if l \<in> set TARGET_EMOTIONS then l else ustr ''Neutral'')"
    "confidence r = spec_reported_confidence float_dec (1 / 2) (split_nl (strip ?reply))"
    by blast
  with l c n show ?thesis by (simp add: Let_def)
qed

section \<open>The range of the confidence\<close>

text \<open>
  Claim C8, as stated: every result has a confidence in [0, 1], also when the remote
  reply reports an arbitrary float. The remote fallback returns the reported float as
  it is: on the reply \<open>EMOTION: Happy\<close>, \<open>CONFIDENCE: 5\<close> its confidence is 5, and
  \<open>detect_emotion\<close> hands this result on when there is no local pipeline.
\<close>

theorem remote_confidence_unclamped:
  "map_option confidence
     (detect_with_gemini float_dec
        \<lparr>confidence_threshold = 3 / 10, use_gemini_fallback = True, emotion_pipeline = None,
         gemini_model = Some (reply_with (ustr ''EMOTION: Happy'' @ [10] @ ustr ''CONFIDENCE: 5''))\<rparr>
        (ustr ''hi'')) = Some 5 \<and>
   map_option confidence
     (detect_emotion float_dec
        \<lparr>confidence_threshold = 3 / 10, use_gemini_fallback = True, emotion_pipeline = None,
         gemini_model = Some (reply_with (ustr ''EMOTION: Happy'' @ [10] @ ustr ''CONFIDENCE: 5''))\<rparr>
        (ustr ''hi'')) = Some 5"
  by (simp add: detect_emotion_def detect_with_gemini_def reply_with_def gemini_line_def
      startswith_def after_colon_def strip_def isspace_def ustr_def float_dec_def isdigit_def
      digits_value_def Let_def)

lemma hf_confidence_range:
  assumes "emotion_pipeline d = Some pipeline" and "pipeline text = Inr predictions"
      and "\<forall>p\<in>set predictions. 0 \<le> snd p" and "detect_with_hf_model d text = Inr r"
  shows "0 \<le> confidence r \<and> confidence r \<le> 1"
proof -
  from hf_result [OF assms(1,2)] assms(4) obtain pre post where
    sc: "scores r = normalize_scores (accumulate predictions)"
    and sp: "scores r = pre @ (label r, confidence r) # post" by auto
  from sp have "(label r, confidence r) \<in> set (normalize_scores (accumulate predictions))"
    unfolding sc [symmetric] by simp
  with normalize_range [OF accumulate_nonneg [OF assms(3)]] show ?thesis by force
qed

lemma detect_emotion_source:
  assumes "detect_emotion pf d text = Some r"
  shows "r = default_emotion \<or> detect_with_hf_model d text = Inr r \<or>
         detect_with_gemini pf d text = Some r"
  using assms
  by (auto simp: detect_emotion_def Let_def split: if_splits option.splits sum.splits)

text \<open>
  Claim C8, amended. The confidence of a result of the local classifier on predictions
  with non-negative scores is in [0, 1]; the confidence of the default result is 1; the
  confidence of a result of the remote fallback is the float reported on the last
  \<open>CONFIDENCE:\<close> line of the reply, unchanged, or 0.5 when there is none or \<open>float\<close>
  fails on it, so it is in [0, 1] exactly when the reported float is; and a result of
  \<open>detect_emotion\<close> is one of these three, returned unchanged.
\<close>

theorem confidence_of_results:
  "(emotion_pipeline d = Some pipeline \<and> pipeline text = Inr predictions \<and>
    (\<forall>p\<in>set predictions. 0 \<le> snd p) \<and> detect_with_hf_model d text = Inr r
      \<longrightarrow> 0 \<le> confidence r \<and> confidence r \<le> 1) \<and>
   confidence default_emotion = 1 \<and>
   (gemini_model d = Some g \<and> g (gemini_prompt text) = Inr reply \<and>
    detect_with_gemini pf d text = Some r2
      \<longrightarrow> confidence r2 = spec_reported_confidence pf (1 / 2) (split_nl (strip reply))) \<and>
   (detect_emotion pf d text = Some r3
      \<longrightarrow> r3 = default_emotion \<or> detect_with_hf_model d text = Inr r3 \<or>
          detect_with_gemini pf d text = Some r3)"
proof -
  have "confidence r2 = spec_reported_confidence pf (1 / 2) (split_nl (strip reply))"
    if "gemini_model d = Some g" "g (gemini_prompt text) = Inr reply"
       "detect_with_gemini pf d text = Some r2"
    using that by (auto simp: detect_with_gemini_def Let_def gemini_fold)
  then show ?thesis
    using hf_confidence_range [of d pipeline "text" predictions r]
      detect_emotion_source [of pf d "text" r3]
    by (simp add: default_emotion_def)
qed


theorem confidence_of_results_witness:
  "detect_with_hf_model
     \<lparr>confidence_threshold = 3 / 10, use_gemini_fallback = False,
      emotion_pipeline = Some (predict_with [(ustr ''joy'', 3 / 10), (ustr ''anger'', 1 / 10)]),
      gemini_model = None\<rparr> (ustr ''hello'')
     = Inr \<lparr>label = ustr ''Happy'', confidence = 3 / 4,
            scores = [(ustr ''Happy'', 3 / 4), (ustr ''Neutral'', 0), (ustr ''Confused'', 0),
                      (ustr ''Frustrated'', 1 / 4), (ustr ''Sad'', 0)]\<rparr> \<and>
   0 \<le> (3 / 4 :: real) \<and> (3 / 4 :: real) \<le> 1 \<and>
   detect_emotion float_dec
     \<lparr>confidence_threshold = 3 / 10, use_gemini_fallback = True, emotion_pipeline = None,
      gemini_model = Some (reply_with (ustr ''CONFIDENCE: 0.7'' @ [10] @ ustr ''EMOTION: Sad''))\<rparr>
     (ustr ''hello'')
     = Some \<lparr>label = ustr ''Sad'', confidence = 7 / 10,
             scores = [(ustr ''Happy'', 3 / 40), (ustr ''Neutral'', 3 / 40),
                       (ustr ''Confused'', 3 / 40), (ustr ''Frustrated'', 3 / 40),
                       (ustr ''Sad'', 7 / 10)]\<rparr> \<and>
   spec_reported_confidence float_dec (1 / 2)
     (split_nl (strip (ustr ''CONFIDENCE: 0.7'' @ [10] @ ustr ''EMOTION: Sad''))) = 7 / 10"
proof -
  let ?P = "[(ustr ''joy'', 3 / 10), (ustr ''anger'', 1 / (10::real))]"
  let ?d1 = "\<lparr>confidence_threshold = 3 / 10, use_gemini_fallback = False,
      emotion_pipeline = Some (predict_with ?P), gemini_model = None\<rparr>"
  let ?R1 = "\<lparr>label = ustr ''Happy'', confidence = 3 / 4,
            scores = [(ustr ''Happy'', 3 / 4), (ustr ''Neutral'', 0), (ustr ''Confused'', 0),
                      (ustr ''Frustrated'', 1 / 4), (ustr ''Sad'', 0)]\<rparr>"
  let ?reply = "ustr ''CONFIDENCE: 0.7'' @ [10] @ ustr ''EMOTION: Sad''"
  let ?d2 = "\<lparr>confidence_threshold = 3 / 10, use_gemini_fallback = True, emotion_pipeline = None,
      gemini_model = Some (reply_with ?reply)\<rparr>"
  let ?R2 = "\<lparr>label = ustr ''Sad'', confidence = 7 / 10,
             scores = [(ustr ''Happy'', 3 / 40), (ustr ''Neutral'', 3 / 40),
                       (ustr ''Confused'', 3 / 40), (ustr ''Frustrated'', 3 / 40),
                       (ustr ''Sad'', 7 / 10)]\<rparr>"
  let ?t = "ustr ''hello''"
  have ev1: "detect_with_hf_model ?d1 ?t = Inr ?R1"
    by (simp add: detect_with_hf_model_def predict_with_def accumulate_def add_score_def
        normalize_scores_def max_item_def TARGET_EMOTIONS_def target_emotion_def
        EMOTION_MAPPING_def ustr_def)
  have ev2: "detect_with_gemini float_dec ?d2 ?t = Some ?R2"
    by (simp add: detect_with_gemini_def reply_with_def gemini_line_def gemini_scores_def
        TARGET_EMOTIONS_def startswith_def after_colon_def strip_def isspace_def ustr_def
        float_dec_def isdigit_def digits_value_def Let_def)
  have ev3: "detect_emotion float_dec ?d2 ?t = Some ?R2"
    using ev2 by (simp add: detect_emotion_def strip_def isspace_def ustr_def)
  have h1: "emotion_pipeline ?d1 = Some (predict_with ?P)" by simp
  have h2: "predict_with ?P ?t = Inr ?P" by (simp add: predict_with_def)
  have h3: "\<forall>p\<in>set ?P. 0 \<le> snd p" by simp
  have g1: "gemini_model ?d2 = Some (reply_with ?reply)" by simp
  have g2: "reply_with ?reply (gemini_prompt ?t) = Inr ?reply" by (simp add: reply_with_def)
  note w1 = confidence_of_results [of ?d1 "predict_with ?P" ?t ?P ?R1 "reply_with ?reply" ?reply
      float_dec ?R2 ?R2]
  note w2 = confidence_of_results [of ?d2 "predict_with ?P" ?t ?P ?R1 "reply_with ?reply" ?reply
      float_dec ?R2 ?R2]
  from w1 h1 h2 h3 ev1 have a: "0 \<le> confidence ?R1 \<and> confidence ?R1 \<le> 1" by blast
  from w2 g1 g2 ev2 have b: "confidence ?R2 =
      spec_reported_confidence float_dec (1 / 2) (split_nl (strip ?reply))" by blast
  from a b ev1 ev3 show ?thesis by simp
qed

section \<open>The combined reply: the response text\<close>

lemma response_not_field: "is_response_line l \<Longrightarrow> is_plain_line l"
  by (cases l) (auto simp: is_plain_line_def is_response_line_def is_emotion_line_def is_confidence_line_def startswith_def ustr_def)

lemma parse_line_cases:
  "parse_line pf (t, l, c) x =
     (if is_emotion_line x then (t, spec_mapped_label (strip (after_colon x)), c)
      else if is_confidence_line x then
        (t, l, (case pf (strip (after_colon x)) of Some v \<Rightarrow> v | None \<Rightarrow> 1 / 2))
      else if is_response_line x then (strip (after_colon x), l, c)
      else if t \<noteq> [] then (t @ 10 # x, l, c)
      else (t, l, c))"
  by (simp add: parse_line_def is_emotion_line_def is_confidence_line_def is_response_line_def
      spec_mapped_label_def Let_def)

lemma parse_fold_fields:
  "snd (foldl (parse_line pf) (t0, l0, c0) ls) =
     ((case filter is_emotion_line ls of
         [] \<Rightarrow> l0
       | e # es \<Rightarrow> spec_mapped_label (strip (after_colon (last (e # es))))),
      spec_reported_confidence pf c0 ls)"
proof (induction ls rule: rev_induct)
  case Nil
  show ?case by (simp add: spec_reported_confidence_def)
next
  case (snoc x xs)
  obtain t l c where st: "foldl (parse_line pf) (t0, l0, c0) xs = (t, l, c)"
    by (cases "foldl (parse_line pf) (t0, l0, c0) xs")
  show ?case
  proof (cases "is_emotion_line x")
    case True
    with not_both [of x] have nc: "\<not> is_confidence_line x" by simp
    from True nc snoc st show ?thesis
      by (simp add: parse_line_cases spec_reported_confidence_def split: list.splits)
  next
    case False
    with snoc st show ?thesis
      by (simp add: parse_line_cases spec_reported_confidence_def split: list.splits)
  qed
qed

lemma parse_fold_no_response:
  "\<forall>x\<in>set ls. \<not> is_response_line x \<Longrightarrow>
   fst (foldl (parse_line pf) (t, l, c) ls) =
     (if t = [] then [] else t @ concat (map (\<lambda>x. 10 # x) (filter is_plain_line ls)))"
proof (induction ls arbitrary: t l c)
  case Nil
  show ?case by simp
next
  case (Cons x xs)
  obtain t' l' c' where st: "parse_line pf (t, l, c) x = (t', l', c')"
    by (cases "parse_line pf (t, l, c) x")
  from Cons.prems have nr: "\<not> is_response_line x" and rest: "\<forall>y\<in>set xs. \<not> is_response_line y"
    by simp_all
  from st nr have t': "t' = (if is_plain_line x \<and> t \<noteq> [] then t @ 10 # x else t)"
    by (auto simp: parse_line_cases is_plain_line_def split: if_splits)
  show ?case
    using Cons.IH [OF rest, of t' l' c'] by (simp add: st t')
qed

lemma parse_fold_last_response:
  assumes "is_response_line r" and "\<forall>x\<in>set post. \<not> is_response_line x"
  shows "fst (foldl (parse_line pf) st (pre @ [r] @ post)) =
     (if strip (after_colon r) = [] then []
      else strip (after_colon r) @ concat (map (\<lambda>x. 10 # x) (filter is_plain_line post)))"
proof -
  obtain t l c where s1: "foldl (parse_line pf) st pre = (t, l, c)"
    by (cases "foldl (parse_line pf) st pre")
  from response_not_field [OF assms(1)] assms(1)
  have "parse_line pf (t, l, c) r = (strip (after_colon r), l, c)"
    by (simp add: parse_line_cases is_plain_line_def)
  with s1 show ?thesis
    by (simp add: parse_fold_no_response [OF assms(2)])
qed

lemma parse_fold_trimmed:
  "t = [] \<or> \<not> isspace (hd t) \<Longrightarrow>
   fst (foldl (parse_line pf) (t, l, c) ls) = [] \<or>
   \<not> isspace (hd (fst (foldl (parse_line pf) (t, l, c) ls)))"
proof (induction ls arbitrary: t l c)
  case Nil
  then show ?case by simp
next
  case (Cons x xs)
  obtain t' l' c' where st: "parse_line pf (t, l, c) x = (t', l', c')"
    by (cases "parse_line pf (t, l, c) x")
  have "t' = [] \<or> \<not> isspace (hd t')"
    using st Cons.prems strip_trimmed [of "after_colon x"]
    by (auto simp: parse_line_cases split: if_splits)
  from Cons.IH [OF this, of l' c'] show ?case by (simp add: st)
qed


lemma generate_parse_fst:
  "fst (generate_parse pf rating language reply) =
     strip ((let t = fst (foldl (parse_line pf) ([], ustr ''Neutral'', 0) (split_nl (strip reply)))
             in if t = [] then strip reply else t) @
            (if rating then rating_request language else []))"
  by (simp add: generate_parse_def Let_def split: prod.splits)

text \<open>
  Claim C3, as stated: after a \<open>RESPONSE:\<close> line every later line of the input is
  appended, and the response is never empty on a non-empty reply. On the reply
  \<open>RESPONSE: a\<close>, \<open>EMOTION: Sad\<close> the response is \<open>a\<close>: the second line is read as the
  emotion field and is not appended. On a reply of one space the response is empty.
\<close>

theorem response_every_later_line_counterexample:
  "fst (generate_parse float_dec False (ustr ''en'')
          (ustr ''RESPONSE: a'' @ [10] @ ustr ''EMOTION: Sad'')) = ustr ''a'' \<and>
   ustr ''a'' \<noteq> ustr ''a'' @ [10] @ ustr ''EMOTION: Sad'' \<and>
   fst (generate_parse float_dec False (ustr ''en'') (ustr '' '')) = []"
  by (simp add: generate_parse_def parse_line_def startswith_def after_colon_def strip_def
      isspace_def ustr_def emotion_map_def Let_def)

text \<open>
  Claim C3, amended. The reply is stripped and split into lines. When no line starts
  with \<open>RESPONSE:\<close>, the response is the stripped reply. When exactly one line starts
  with \<open>RESPONSE:\<close> and the stripped rest of that line is not empty, the response is
  that rest followed by each later line that starts with neither \<open>EMOTION:\<close> nor
  \<open>CONFIDENCE:\<close>, each after a newline; the later lines that start with one of these
  two markers are read as fields and are not appended. In both cases the rating request
  is appended when one is due, and the result is stripped. The response is not empty
  when the reply has a character that is not whitespace. The reply \<open>EMOTION: Sad\<close>,
  \<open>CONFIDENCE: 0.7\<close>, \<open>RESPONSE: line1\<close>, \<open>line2\<close> gives the response \<open>line1\<close>,
  \<open>line2\<close> with label Sad and confidence 0.7, given that \<open>float('0.7')\<close> is 0.7.
\<close>

theorem combined_response:
  "((\<forall>x\<in>set (split_nl (strip reply)). \<not> is_response_line x) \<longrightarrow>
      fst (generate_parse pf rating language reply) =
        strip (strip reply @ (if rating then rating_request language else []))) \<and>
   (split_nl (strip reply) = pre @ [r] @ post \<and> is_response_line r \<and>
    (\<forall>x\<in>set pre. \<not> is_response_line x) \<and> (\<forall>x\<in>set post. \<not> is_response_line x) \<and>
    strip (after_colon r) \<noteq> [] \<longrightarrow>
      fst (generate_parse pf rating language reply) =
        strip (strip (after_colon r) @
               concat (map (\<lambda>x. 10 # x) (filter is_plain_line post)) @
               (if rating then rating_request language else []))) \<and>
   ((\<exists>c\<in>set reply. \<not> isspace c) \<longrightarrow> fst (generate_parse pf rating language reply) \<noteq> []) \<and>
   (pf (ustr ''0.7'') = Some (7 / 10) \<longrightarrow>
      generate_parse pf False language
        (ustr ''EMOTION: Sad'' @ [10] @ ustr ''CONFIDENCE: 0.7'' @ [10] @
         ustr ''RESPONSE: line1'' @ [10] @ ustr ''line2'')
      = (ustr ''line1'' @ [10] @ ustr ''line2'', ustr ''Sad'', 7 / 10))"
proof (intro conjI impI)
  assume "\<forall>x\<in>set (split_nl (strip reply)). \<not> is_response_line x"
  then show "fst (generate_parse pf rating language reply) =
        strip (strip reply @ (if rating then rating_request language else []))"
    by (simp add: generate_parse_fst parse_fold_no_response)
next
  assume a: "split_nl (strip reply) = pre @ [r] @ post \<and> is_response_line r \<and>
    (\<forall>x\<in>set pre. \<not> is_response_line x) \<and> (\<forall>x\<in>set post. \<not> is_response_line x) \<and>
    strip (after_colon r) \<noteq> []"
  then have "fst (foldl (parse_line pf) ([], ustr ''Neutral'', 0) (split_nl (strip reply))) =
      strip (after_colon r) @ concat (map (\<lambda>x. 10 # x) (filter is_plain_line post))"
    using parse_fold_last_response [of r post pf "([], ustr ''Neutral'', 0)" pre] by simp
  with a show "fst (generate_parse pf rating language reply) =
        strip (strip (after_colon r) @
               concat (map (\<lambda>x. 10 # x) (filter is_plain_line post)) @
               (if rating then rating_request language else []))"
    by (simp add: generate_parse_fst Let_def)
next
  assume "\<exists>c\<in>set reply. \<not> isspace c"
  then have ne: "strip reply \<noteq> []" by (simp add: strip_empty_iff)
  define t where "t = fst (foldl (parse_line pf) ([], ustr ''Neutral'', 0) (split_nl (strip reply)))"
  define body where "body = (if t = [] then strip reply else t)"
  have "t = [] \<or> \<not> isspace (hd t)"
    unfolding t_def by (rule parse_fold_trimmed) simp
  with ne strip_trimmed [OF ne] have "body \<noteq> []" "\<not> isspace (hd body)"
    by (auto simp: body_def)
  then have "strip (body @ (if rating then rating_request language else [])) \<noteq> []"
    by (rule strip_append_nonempty)
  moreover have "fst (generate_parse pf rating language reply) =
      strip (body @ (if rating then rating_request language else []))"
    unfolding body_def t_def by (simp only: generate_parse_fst Let_def)
  ultimately show "fst (generate_parse pf rating language reply) \<noteq> []"
    by simp
next
  assume "pf (ustr ''0.7'') = Some (7 / 10)"
  then show "generate_parse pf False language
        (ustr ''EMOTION: Sad'' @ [10] @ ustr ''CONFIDENCE: 0.7'' @ [10] @
         ustr ''RESPONSE: line1'' @ [10] @ ustr ''line2'')
      = (ustr ''line1'' @ [10] @ ustr ''line2'', ustr ''Sad'', 7 / 10)"
    by (simp add: generate_parse_def parse_line_def startswith_def after_colon_def strip_def
      isspace_def ustr_def emotion_map_def Let_def)
qed

theorem combined_response_witness:
  "fst (generate_parse float_dec False (ustr ''en'') (ustr ''just some text''))
     = ustr ''just some text'' \<and>
   fst (generate_parse float_dec False (ustr ''en'')
          (ustr ''RESPONSE: a'' @ [10] @ ustr ''EMOTION: Sad'' @ [10] @ ustr ''b''))
     = ustr ''a'' @ [10] @ ustr ''b'' \<and>
   fst (generate_parse float_dec False (ustr ''en'') (ustr ''just some text'')) \<noteq> [] \<and>
   generate_parse float_dec False (ustr ''en'')
     (ustr ''EMOTION: Sad'' @ [10] @ ustr ''CONFIDENCE: 0.7'' @ [10] @
      ustr ''RESPONSE: line1'' @ [10] @ ustr ''line2'')
     = (ustr ''line1'' @ [10] @ ustr ''line2'', ustr ''Sad'', 7 / 10)"
proof -
  let ?r1 = "ustr ''just some text''"
  let ?r2 = "ustr ''RESPONSE: a'' @ [10] @ ustr ''EMOTION: Sad'' @ [10] @ ustr ''b''"
  have s1: "strip ?r1 = ?r1" by (simp add: strip_def isspace_def ustr_def)
  have h1: "\<forall>x\<in>set (split_nl (strip ?r1)). \<not> is_response_line x"
    unfolding s1 by (simp add: is_response_line_def startswith_def ustr_def)
  have s2: "strip ?r2 = ?r2" by (simp add: strip_def isspace_def ustr_def)
  have h2: "split_nl (strip ?r2) = [] @ [ustr ''RESPONSE: a''] @ [ustr ''EMOTION: Sad'', ustr ''b'']"
    unfolding s2 by (simp add: ustr_def)
  have h3: "is_response_line (ustr ''RESPONSE: a'')"
    by (simp add: is_response_line_def startswith_def ustr_def)
  have h4: "\<forall>x\<in>set [ustr ''EMOTION: Sad'', ustr ''b'']. \<not> is_response_line x"
    by (simp add: is_response_line_def startswith_def ustr_def)
  have h5: "float_dec (ustr ''0.7'') = Some (7 / 10)"
    by (simp add: float_dec_def isdigit_def digits_value_def ustr_def)
  have h6: "\<forall>x\<in>set ([] :: pstr list). \<not> is_response_line x" by simp
  have h7: "\<exists>c\<in>set ?r1. \<not> isspace c" by (simp add: isspace_def ustr_def)
  have e2: "strip (after_colon (ustr ''RESPONSE: a'')) = ustr ''a''"
    by (simp add: after_colon_def strip_def isspace_def ustr_def)
  have h8: "strip (after_colon (ustr ''RESPONSE: a'')) \<noteq> []"
    unfolding e2 by (simp add: ustr_def)
  have p2: "filter is_plain_line [ustr ''EMOTION: Sad'', ustr ''b''] = [ustr ''b'']"
    by (simp add: is_plain_line_def is_emotion_line_def is_confidence_line_def startswith_def
        ustr_def)
  note a = combined_response [of ?r1 float_dec False "ustr ''en''" "[]" "[]" "[]"]
  note b = combined_response [of ?r2 float_dec False "ustr ''en''" "[]" "ustr ''RESPONSE: a''"
      "[ustr ''EMOTION: Sad'', ustr ''b'']"]
  from a h1 have 1: "fst (generate_parse float_dec False (ustr ''en'') ?r1) = ?r1"
    by (simp add: s1)
  from b h2 h3 h4 h6 h8 have "fst (generate_parse float_dec False (ustr ''en'') ?r2) =
      strip (strip (after_colon (ustr ''RESPONSE: a'')) @
             concat (map (\<lambda>x. 10 # x)
               (filter is_plain_line [ustr ''EMOTION: Sad'', ustr ''b''])) @
             (if False then rating_request (ustr ''en'') else []))"
    by blast
  then have 2: "fst (generate_parse float_dec False (ustr ''en'') ?r2) =
      ustr ''a'' @ [10] @ ustr ''b''"
    unfolding e2 p2 by (simp add: strip_def isspace_def ustr_def)
  from a h7 have 3: "fst (generate_parse float_dec False (ustr ''en'') ?r1) \<noteq> []" by blast
  from b h5 have 4: "generate_parse float_dec False (ustr ''en'')
     (ustr ''EMOTION: Sad'' @ [10] @ ustr ''CONFIDENCE: 0.7'' @ [10] @
      ustr ''RESPONSE: line1'' @ [10] @ ustr ''line2'')
     = (ustr ''line1'' @ [10] @ ustr ''line2'', ustr ''Sad'', 7 / 10)" by blast
  from 1 2 3 4 show ?thesis by blast
qed

section \<open>The combined reply: label and confidence\<close>

text \<open>
  Claim C4, as stated: the confidence is 0.5 whenever no valid \<open>CONFIDENCE:\<close> float is
  obtained, so \<open>just some text\<close> gives confidence 0.5. The loop starts from the
  confidence 0.0 and only a \<open>CONFIDENCE:\<close> line changes it: the result is 0.0.
\<close>

theorem no_marker_confidence_counterexample:
  "generate_parse float_dec False (ustr ''en'') (ustr ''just some text'')
     = (ustr ''just some text'', ustr ''Neutral'', 0) \<and>
   generate_parse float_dec False (ustr ''en'') (ustr ''just some text'')
     \<noteq> (ustr ''just some text'', ustr ''Neutral'', 1 / 2)"
  by (simp add: generate_parse_def parse_line_def startswith_def after_colon_def strip_def
      isspace_def ustr_def emotion_map_def Let_def)

text \<open>
  Claim C4, amended. For every reply, the confidence is the float of the last line that
  starts with \<open>CONFIDENCE:\<close>, 0.5 when \<open>float\<close> fails on it, and 0.0 when there is no
  such line. The reported label is the stripped text after the colon of the last line
  that starts with \<open>EMOTION:\<close>. When the reported label is one of the five labels or
  one of the five Arabic labels, the result's label is the reported label passed
  through the Arabic-to-English label map, and it is one of the five: the map keeps a
  label of the five and sends each Arabic label to a label of the five. When no line
  starts with \<open>EMOTION:\<close>, the label is Neutral. The reply \<open>just some text\<close> gives
  \<open>just some text\<close>, Neutral, 0.0.
\<close>

theorem combined_label_confidence:
  "snd (snd (generate_parse pf rating language reply)) =
     spec_reported_confidence pf 0 (split_nl (strip reply)) \<and>
   (spec_reported_label (ustr ''Neutral'') (split_nl (strip reply))
      \<in> set (TARGET_EMOTIONS @ map fst emotion_map) \<longrightarrow>
      fst (snd (generate_parse pf rating language reply)) =
        spec_mapped_label (spec_reported_label (ustr ''Neutral'') (split_nl (strip reply))) \<and>
      fst (snd (generate_parse pf rating language reply)) \<in> set TARGET_EMOTIONS) \<and>
   (filter is_emotion_line (split_nl (strip reply)) = [] \<longrightarrow>
      fst (snd (generate_parse pf rating language reply)) = ustr ''Neutral'') \<and>
   (\<forall>l\<in>set TARGET_EMOTIONS. spec_mapped_label l = l) \<and>
   (\<forall>kv\<in>set emotion_map. spec_mapped_label (fst kv) = snd kv \<and> snd kv \<in> set TARGET_EMOTIONS) \<and>
   generate_parse pf False language (ustr ''just some text'')
     = (ustr ''just some text'', ustr ''Neutral'', 0)"
proof -
  let ?ls = "split_nl (strip reply)"
  let ?l = "spec_reported_label (ustr ''Neutral'') ?ls"
  have n: "spec_mapped_label (ustr ''Neutral'') = ustr ''Neutral''"
    by (simp add: spec_mapped_label_def emotion_map_def ustr_def)
  have "snd (generate_parse pf rating language reply) =
      snd (foldl (parse_line pf) ([], ustr ''Neutral'', 0) ?ls)"
    by (simp add: generate_parse_def Let_def split: prod.splits)
  then have both: "snd (generate_parse pf rating language reply) =
     (spec_mapped_label ?l, spec_reported_confidence pf 0 ?ls)"
    by (simp add: parse_fold_fields spec_reported_label_def n split: list.splits)
  have keep: "\<forall>l\<in>set TARGET_EMOTIONS. spec_mapped_label l = l"
    by (simp add: TARGET_EMOTIONS_def spec_mapped_label_def emotion_map_def ustr_def)
  have send: "\<forall>kv\<in>set emotion_map.
      spec_mapped_label (fst kv) = snd kv \<and> snd kv \<in> set TARGET_EMOTIONS"
    by (simp add: TARGET_EMOTIONS_def spec_mapped_label_def emotion_map_def ustr_def)
  have c: "snd (snd (generate_parse pf rating language reply)) =
      spec_reported_confidence pf 0 ?ls"
    by (simp add: both)
  have lab: "fst (snd (generate_parse pf rating language reply)) = spec_mapped_label ?l"
    by (simp add: both)
  have known: "spec_mapped_label ?l \<in> set TARGET_EMOTIONS"
    if "?l \<in> set (TARGET_EMOTIONS @ map fst emotion_map)"
  proof (cases "?l \<in> set TARGET_EMOTIONS")
    case True
    with keep show ?thesis by simp
  next
    case False
    with that obtain kv where "kv \<in> set emotion_map" "?l = fst kv" by auto
    with send show ?thesis by auto
  qed
  have none: "fst (snd (generate_parse pf rating language reply)) = ustr ''Neutral''"
    if "filter is_emotion_line ?ls = []"
    using that by (simp add: lab spec_reported_label_def n)
  have ex: "generate_parse pf False language (ustr ''just some text'')
     = (ustr ''just some text'', ustr ''Neutral'', 0)"
    by (simp add: generate_parse_def parse_line_def startswith_def after_colon_def strip_def
      isspace_def ustr_def emotion_map_def Let_def)
  show ?thesis
  proof (intro conjI impI)
    show "snd (snd (generate_parse pf rating language reply)) =
        spec_reported_confidence pf 0 ?ls" by (rule c)
    show "fst (snd (generate_parse pf rating language reply)) = spec_mapped_label ?l"
      by (rule lab)
    show "fst (snd (generate_parse pf rating language reply)) \<in> set TARGET_EMOTIONS"
      if "?l \<in> set (TARGET_EMOTIONS @ map fst emotion_map)"
      using known [OF that] by (simp only: lab)
    show "fst (snd (generate_parse pf rating language reply)) = ustr ''Neutral''"
      if "filter is_emotion_line ?ls = []"
      using that by (rule none)
  qed (rule keep send ex)+
qed

theorem combined_label_confidence_witness:
  "snd (generate_parse float_dec False (ustr ''en'')
          (ustr ''EMOTION: '' @ [1581, 1586, 1610, 1606] @ [10] @ ustr ''CONFIDENCE: abc'' @
           [10] @ ustr ''RESPONSE: x''))
     = (ustr ''Sad'', 1 / 2) \<and>
   fst (snd (generate_parse float_dec False (ustr ''en'') (ustr ''RESPONSE: x'')))
     = ustr ''Neutral'' \<and>
   spec_mapped_label (ustr ''Sad'') = ustr ''Sad'' \<and>
   spec_mapped_label [1581, 1586, 1610, 1606] = ustr ''Sad''"
proof -
  let ?r = "ustr ''EMOTION: '' @ [1581, 1586, 1610, 1606] @ [10] @ ustr ''CONFIDENCE: abc'' @
           [10] @ ustr ''RESPONSE: x''"
  let ?q = "ustr ''RESPONSE: x''"
  note w = combined_label_confidence [of float_dec False "ustr ''en''" ?r]
  note v = combined_label_confidence [of float_dec False "ustr ''en''" ?q]
  have s: "strip ?r = ?r" by (simp add: strip_def isspace_def ustr_def)
  have l: "spec_reported_label (ustr ''Neutral'') (split_nl (strip ?r)) = [1581, 1586, 1610, 1606]"
    unfolding s
    by (simp add: spec_reported_label_def is_emotion_line_def startswith_def after_colon_def
        strip_def isspace_def ustr_def)
  have k: "spec_reported_label (ustr ''Neutral'') (split_nl (strip ?r))
      \<in> set (TARGET_EMOTIONS @ map fst emotion_map)"
    unfolding l by (simp add: emotion_map_def)
  have c: "spec_reported_confidence float_dec 0 (split_nl (strip ?r)) = 1 / 2"
    unfolding s
    by (simp add: spec_reported_confidence_def is_confidence_line_def startswith_def
        after_colon_def strip_def isspace_def ustr_def float_dec_def isdigit_def)
  have q: "filter is_emotion_line (split_nl (strip ?q)) = []"
    by (simp add: is_emotion_line_def startswith_def strip_def isspace_def ustr_def)
  have t: "ustr ''Sad'' \<in> set TARGET_EMOTIONS" by (simp add: TARGET_EMOTIONS_def)
  have m: "([1581, 1586, 1610, 1606], ustr ''Sad'') \<in> set emotion_map"
    by (simp add: emotion_map_def)
  from w t have 1: "spec_mapped_label (ustr ''Sad'') = ustr ''Sad''" by blast
  from w m have 2: "spec_mapped_label [1581, 1586, 1610, 1606] = ustr ''Sad''" by force
  from w k have 3: "fst (snd (generate_parse float_dec False (ustr ''en'') ?r)) =
      spec_mapped_label (spec_reported_label (ustr ''Neutral'') (split_nl (strip ?r)))"
    by blast
  from w have 4: "snd (snd (generate_parse float_dec False (ustr ''en'') ?r)) =
      spec_reported_confidence float_dec 0 (split_nl (strip ?r))" by blast
  from v q have 5: "fst (snd (generate_parse float_dec False (ustr ''en'') ?q)) = ustr ''Neutral''"
    by blast
  from 3 4 l c 2 have "snd (generate_parse float_dec False (ustr ''en'') ?r) = (ustr ''Sad'', 1 / 2)"
    by (simp add: prod_eq_iff)
  with 1 2 5 show ?thesis by blast
qed

end
